theory Spec2Isabelle
  imports Complex_Main "HOL-Library.Sublist" "HOL-Library.AList"
begin

section \<open>Shared data: JSON values, exceptions, tensors\<close>

text \<open>
  The three programs exchange JSON. A JSON value is modelled as it parses in Python:
  \<open>null\<close> is \<open>None\<close>, an object is a dict (an association list, in insertion order),
  and the float NaN is the bare word \<open>NaN\<close> that Python's \<open>json\<close> reads and writes.
\<close>

datatype json =
    JNull
  | JNaN
  | JBool bool
  | JNum real
  | JStr string
  | JArr "json list"
  | JObj "(string \<times> json) list"

text \<open>
  A raised Python exception: the name of its class and \<open>str(e)\<close>. The texts of the
  exceptions that the repository raises itself are written out in the model; the text of an
  exception of a backend library comes from the environment; the texts of the interpreter's
  own exceptions (a missing attribute, a missing key, a division by zero) are given in
  short form, and no statement below depends on them.
\<close>

datatype py_exc = PyExc string string

fun exc_type :: "py_exc \<Rightarrow> string" where
  "exc_type (PyExc c m) = c"

fun exc_str :: "py_exc \<Rightarrow> string" where
  "exc_str (PyExc c m) = m"

text \<open>
  A float element is a real number or NaN (\<open>None\<close>); rounding to 32 bits and the
  infinities are not modelled. An array is its shape and its elements in row-major order.
\<close>

type_synonym float32 = "real option"

record ndarray =
  shape :: "nat list"
  elems :: "float32 list"

text \<open>Truthiness of Python values, as \<open>if not x\<close> tests it.\<close>

fun truthy_str :: "string option \<Rightarrow> bool" where
  "truthy_str None = False"
| "truthy_str (Some s) = (s \<noteq> [])"

fun truthy :: "json \<Rightarrow> bool" where
  "truthy JNull = False"
| "truthy JNaN = True"
| "truthy (JBool b) = b"
| "truthy (JNum x) = (x \<noteq> 0)"
| "truthy (JStr s) = (s \<noteq> [])"
| "truthy (JArr xs) = (xs \<noteq> [])"
| "truthy (JObj kvs) = (kvs \<noteq> [])"

text \<open>\<open>f"{x}"\<close> of a value that is a string or \<open>None\<close>.\<close>

fun py_str :: "string option \<Rightarrow> string" where
  "py_str None = ''None''"
| "py_str (Some s) = s"

text \<open>
  A Python dict keeps its keys in insertion order: it is an association list with distinct
  keys, \<open>d[k] = v\<close> is \<open>AList.update k v\<close> (in place for a key that is there, at the
  end for a new one), \<open>del d[k]\<close> is \<open>AList.delete k\<close>, \<open>k in d\<close> is membership in
  \<open>keys\<close>.
\<close>

type_synonym ('k, 'v) dict = "('k \<times> 'v) list"

definition keys :: "('k, 'v) dict \<Rightarrow> 'k list" where
  "keys d = map fst d"

subsection \<open>\<open>os.path\<close> on POSIX paths\<close>

definition basename :: "string \<Rightarrow> string" where
  "basename p = rev (takeWhile (\<lambda>c. c \<noteq> CHR ''/'') (rev p))"

text \<open>
  The extension that \<open>os.path.splitext\<close> returns: from the last dot of the last path
  component, unless only dots precede it there.
\<close>

definition splitext_ext :: "string \<Rightarrow> string" where
  "splitext_ext p =
     (let b = basename p;
          suffix = rev (takeWhile (\<lambda>c. c \<noteq> CHR ''.'') (rev b))
      in if CHR ''.'' \<in> set b
            \<and> list_ex (\<lambda>c. c \<noteq> CHR ''.'') (take (length b - length suffix - 1) b)
         then CHR ''.'' # suffix
         else [])"

text \<open>\<open>str.lower\<close> on ASCII letters (a \<open>char\<close> is a byte).\<close>

definition lower_char :: "char \<Rightarrow> char" where
  "lower_char c =
     (case map_of (zip ''ABCDEFGHIJKLMNOPQRSTUVWXYZ'' ''abcdefghijklmnopqrstuvwxyz'') c of
        None \<Rightarrow> c
      | Some l \<Rightarrow> l)"

definition lower :: "string \<Rightarrow> string" where
  "lower s = map lower_char s"

text \<open>\<open>os.path.basename(None)\<close> and \<open>os.path.splitext(None)\<close> raise.\<close>

definition path_type_error :: py_exc where
  "path_type_error =
     PyExc ''TypeError'' ''expected str, bytes or os.PathLike object, not NoneType''"

subsection \<open>\<open>numpy\<close>: building and reshaping arrays\<close>

definition inhomogeneous :: py_exc where
  "inhomogeneous = PyExc ''ValueError'' ''setting an array element with a sequence.''"

text \<open>
  \<open>np.array(v, dtype=...)\<close>, as the shape and the elements in row-major order: a list is
  an array when its items are arrays of one shape; anything else is a 0-d array holding the
  value as \<open>scalar\<close> converts it to the element type.
\<close>

fun np_array_of :: "(json \<Rightarrow> py_exc + 'a) \<Rightarrow> json \<Rightarrow> py_exc + nat list \<times> 'a list" where
  "np_array_of scalar (JArr xs) =
     (let rs = map (np_array_of scalar) xs in
      case filter isl rs of
        e # _ \<Rightarrow> Inl (projl e)
      | [] \<Rightarrow>
         (case map projr rs of
            [] \<Rightarrow> Inr ([0], [])
          | (sh, es) # as \<Rightarrow>
              if list_all (\<lambda>b. fst b = sh) as
              then Inr (Suc (length as) # sh, concat (map snd ((sh, es) # as)))
              else Inl inhomogeneous))"
| "np_array_of scalar v =
     (case scalar v of Inl e \<Rightarrow> Inl e | Inr x \<Rightarrow> Inr ([], [x]))"

text \<open>
  A Python value as a \<open>float32\<close>: \<open>None\<close> is NaN, a bool is 0 or 1. What numpy makes of
  a string (it parses it) and of a dict (it refuses) is taken from the environment, as the
  function \<open>other\<close>.
\<close>

fun float32_of :: "(json \<Rightarrow> py_exc + float32) \<Rightarrow> json \<Rightarrow> py_exc + float32" where
  "float32_of other JNull = Inr None"
| "float32_of other JNaN = Inr None"
| "float32_of other (JBool b) = Inr (Some (if b then 1 else 0))"
| "float32_of other (JNum x) = Inr (Some x)"
| "float32_of other v = other v"

text \<open>\<open>np.array(v, dtype=np.float32)\<close>.\<close>

definition np_array :: "(json \<Rightarrow> py_exc + float32) \<Rightarrow> json \<Rightarrow> py_exc + ndarray" where
  "np_array other v =
     (case np_array_of (float32_of other) v of
        Inl e \<Rightarrow> Inl e
      | Inr (sh, es) \<Rightarrow> Inr \<lparr>shape = sh, elems = es\<rparr>)"

text \<open>\<open>a.reshape(1, -1)\<close>: one row holding every element.\<close>

definition reshape_1_m1 :: "ndarray \<Rightarrow> ndarray" where
  "reshape_1_m1 a = a\<lparr>shape := [1, length (elems a)]\<rparr>"

text \<open>\<open>a.reshape(-1, 1)\<close>: one column holding every element.\<close>

definition reshape_m1_1 :: "ndarray \<Rightarrow> ndarray" where
  "reshape_m1_1 a = a\<lparr>shape := [length (elems a), 1]\<rparr>"

text \<open>
  The step that all three predict paths share:
  \<open>if len(input_array.shape) == 1: input_array = input_array.reshape(1, -1)\<close>.
\<close>

definition ensure_batch :: "ndarray \<Rightarrow> ndarray" where
  "ensure_batch a = (if length (shape a) = 1 then reshape_1_m1 a else a)"

text \<open>
  \<open>a.tolist()\<close>: the nested lists of an array. A 0-d array holds exactly one element, so
  the first case never sees an empty list on an array that numpy built.
\<close>

fun float_json :: "float32 \<Rightarrow> json" where
  "float_json None = JNaN"
| "float_json (Some x) = JNum x"

fun tolist_of :: "nat list \<Rightarrow> float32 list \<Rightarrow> json" where
  "tolist_of [] es = (case es of [] \<Rightarrow> JNaN | e # _ \<Rightarrow> float_json e)"
| "tolist_of (n # sh) es =
     JArr (map (\<lambda>i. tolist_of sh (take (prod_list sh) (drop (i * prod_list sh) es))) [0..<n])"

definition tolist :: "ndarray \<Rightarrow> json" where
  "tolist a = tolist_of (shape a) (elems a)"

section \<open>The streaming bridge (\<open>python_bridge.py\<close>)\<close>

text \<open>A loaded model is an opaque object of its backend library.\<close>

type_synonym handle = nat

text \<open>
  What the bridge cannot do itself: the backend libraries' loaders and predictors, each
  returning its value or the exception it raises (a loader's own \<open>import\<close> statements run
  inside it); which modules the \<open>import\<close> statements of \<open>handle_predict\<close> and
  \<open>handle_status\<close> find; the interpreter's version; the traceback text of an exception.
\<close>

record pb_env =
  keras_load :: "string \<Rightarrow> py_exc + handle"
  joblib_load :: "string \<Rightarrow> py_exc + handle"
  pickle_load :: "string \<Rightarrow> py_exc + handle"
  tflite_load :: "string \<Rightarrow> py_exc + handle"
  keras_predict :: "handle \<Rightarrow> ndarray \<Rightarrow> py_exc + ndarray"
  has_predict_proba :: "handle \<Rightarrow> bool"
  sklearn_predict_proba :: "handle \<Rightarrow> ndarray \<Rightarrow> py_exc + ndarray"
  sklearn_predict :: "handle \<Rightarrow> ndarray \<Rightarrow> py_exc + ndarray"
  tflite_invoke :: "handle \<Rightarrow> ndarray \<Rightarrow> py_exc + ndarray"
  pb_np_other :: "json \<Rightarrow> py_exc + float32"
  importable :: "string \<Rightarrow> bool"
  python_version :: string
  pb_format_exc :: "py_exc \<Rightarrow> string"

text \<open>The two module-level dicts \<open>_models\<close> and \<open>_model_types\<close>.\<close>

record pb_state =
  pb_models :: "(string, handle) dict"
  pb_model_types :: "(string, string) dict"

text \<open>
  One line written to stdout. \<open>send_response\<close> leaves \<open>result\<close> and \<open>error\<close> out of
  the object when they are \<open>None\<close>.
\<close>

record response =
  resp_id :: string
  success :: bool
  result :: "json option"
  error :: "string option"

definition send_response :: "string \<Rightarrow> bool \<Rightarrow> json option \<Rightarrow> string option \<Rightarrow> response" where
  "send_response msg_id ok res err =
     \<lparr>resp_id = msg_id, success = ok, result = res, error = err\<rparr>"

text \<open>
  A handler writes responses and changes the state; an exception that leaves it (first
  component) is caught by \<open>main\<close>.
\<close>

type_synonym pb_result = "py_exc option \<times> response list \<times> pb_state"

definition load_keras_model :: "pb_env \<Rightarrow> string \<Rightarrow> py_exc + handle \<times> string" where
  "load_keras_model env model_path =
     (case keras_load env model_path of Inl e \<Rightarrow> Inl e | Inr m \<Rightarrow> Inr (m, ''keras''))"

definition load_sklearn_model :: "pb_env \<Rightarrow> string \<Rightarrow> py_exc + handle \<times> string" where
  "load_sklearn_model env model_path =
     (let ext = lower (splitext_ext model_path) in
      case (if ext = ''.joblib'' then joblib_load env model_path
            else pickle_load env model_path) of
        Inl e \<Rightarrow> Inl e
      | Inr m \<Rightarrow> Inr (m, ''sklearn''))"

definition load_tflite_model :: "pb_env \<Rightarrow> string \<Rightarrow> py_exc + handle \<times> string" where
  "load_tflite_model env model_path =
     (case tflite_load env model_path of Inl e \<Rightarrow> Inl e | Inr m \<Rightarrow> Inr (m, ''tflite''))"

text \<open>
  The \<open>if\<close>/\<open>elif\<close> chain on the extension in \<open>handle_load_model\<close>: what the chosen
  loader returns or raises, \<open>None\<close> for an extension that has no loader.
\<close>

definition load_by_ext :: "pb_env \<Rightarrow> string \<Rightarrow> string \<Rightarrow> (py_exc + handle \<times> string) option" where
  "load_by_ext env ext model_path =
     (if ext \<in> set [''.keras'', ''.h5''] then Some (load_keras_model env model_path)
      else if ext \<in> set [''.pkl'', ''.joblib''] then Some (load_sklearn_model env model_path)
      else if ext = ''.tflite'' then Some (load_tflite_model env model_path)
      else None)"

text \<open>
  \<open>handle_load_model\<close>. The id defaults to the path's base name; a known id answers
  "already loaded" at once; the extension picks the loader; the two dicts are written only
  after the loader has returned.
\<close>

definition handle_load_model ::
  "pb_env \<Rightarrow> string \<Rightarrow> string option \<Rightarrow> string option \<Rightarrow> pb_state \<Rightarrow> pb_result" where
  "handle_load_model env msg_id model_path model_id s =
     (case (if truthy_str model_id then Inr (py_str model_id)
            else (case model_path of
                    None \<Rightarrow> Inl path_type_error
                  | Some p \<Rightarrow> Inr (basename p))) of
        Inl e \<Rightarrow> (Some e, [], s)
      | Inr mid \<Rightarrow>
          if mid \<in> set (keys (pb_models s))
          then (None,
                [send_response msg_id True
                   (Some (JObj [(''message'', JStr (''Model '' @ mid @ '' already loaded''))]))
                   None],
                s)
          else
            (case model_path of
               None \<Rightarrow> (Some path_type_error, [], s)
             | Some p \<Rightarrow>
                 (let ext = lower (splitext_ext p) in
                  case load_by_ext env ext p of
                    None \<Rightarrow>
                      (None,
                       [send_response msg_id False None
                          (Some (''Unsupported model format: '' @ ext))],
                       s)
                  | Some (Inl e) \<Rightarrow>
                      (None, [send_response msg_id False None (Some (exc_str e))], s)
                  | Some (Inr (model, model_type)) \<Rightarrow>
                      (None,
                       [send_response msg_id True
                          (Some (JObj
                             [(''message'', JStr (''Model '' @ mid @ '' loaded successfully'')),
                              (''model_id'', JStr mid),
                              (''model_type'', JStr model_type)]))
                          None],
                       s\<lparr>pb_models := AList.update mid model (pb_models s),
                         pb_model_types :=
                           AList.update mid model_type (pb_model_types s)\<rparr>))))"

text \<open>\<open>d[k]\<close> of a key that is missing raises \<open>KeyError\<close>, whose text is the quoted key.\<close>

definition key_error :: "string \<Rightarrow> py_exc" where
  "key_error k = PyExc ''KeyError'' ([CHR 0x27] @ k @ [CHR 0x27])"

text \<open>
  The body of the \<open>try\<close> in \<open>handle_predict\<close>: the prediction as nested lists, \<open>None\<close>
  for a model type that is none of the three, or the exception raised.
\<close>

definition run_model ::
  "pb_env \<Rightarrow> handle \<Rightarrow> string \<Rightarrow> json \<Rightarrow> py_exc + json option" where
  "run_model env model model_type input_data =
     (case np_array (pb_np_other env) input_data of
        Inl e \<Rightarrow> Inl e
      | Inr arr \<Rightarrow>
          (let input_array = ensure_batch arr in
           if model_type = ''keras'' then
             (case keras_predict env model input_array of
                Inl e \<Rightarrow> Inl e
              | Inr prediction \<Rightarrow> Inr (Some (tolist prediction)))
           else if model_type = ''sklearn'' then
             (if has_predict_proba env model then
                (case sklearn_predict_proba env model input_array of
                   Inl e \<Rightarrow> Inl e
                 | Inr prediction \<Rightarrow> Inr (Some (tolist prediction)))
              else
                (case sklearn_predict env model input_array of
                   Inl e \<Rightarrow> Inl e
                 | Inr prediction \<Rightarrow>
                     Inr (Some (tolist (if length (shape prediction) = 1
                                        then reshape_m1_1 prediction else prediction)))))
           else if model_type = ''tflite'' then
             (case tflite_invoke env model input_array of
                Inl e \<Rightarrow> Inl e
              | Inr prediction \<Rightarrow> Inr (Some (tolist prediction)))
           else Inr None))"

definition not_loaded :: "string option \<Rightarrow> string" where
  "not_loaded model_id = ''Model '' @ py_str model_id @ '' not loaded''"

text \<open>
  \<open>import numpy as np\<close>, the first statement of \<open>handle_predict\<close>: it runs before the
  registry is looked at and outside the handler's \<open>try\<close>, so where numpy is not
  installed the exception leaves the handler.
\<close>

definition numpy_import_error :: py_exc where
  "numpy_import_error =
     PyExc ''ModuleNotFoundError'' (''No module named '' @ [CHR 0x27] @ ''numpy'' @ [CHR 0x27])"

definition handle_predict ::
  "pb_env \<Rightarrow> string \<Rightarrow> string option \<Rightarrow> json \<Rightarrow> pb_state \<Rightarrow> pb_result" where
  "handle_predict env msg_id model_id input_data s =
     (if \<not> importable env ''numpy'' then (Some numpy_import_error, [], s)
      else
        (case model_id of
           None \<Rightarrow>
             (None, [send_response msg_id False None (Some (not_loaded model_id))], s)
         | Some mid \<Rightarrow>
             (case map_of (pb_models s) mid of
                None \<Rightarrow>
                  (None, [send_response msg_id False None (Some (not_loaded model_id))], s)
              | Some model \<Rightarrow>
                  (case map_of (pb_model_types s) mid of
                     None \<Rightarrow> (Some (key_error mid), [], s)
                   | Some model_type \<Rightarrow>
                       (case run_model env model model_type input_data of
                          Inl e \<Rightarrow>
                            (None, [send_response msg_id False None (Some (exc_str e))], s)
                        | Inr None \<Rightarrow>
                            (None,
                             [send_response msg_id False None
                                (Some (''Unknown model type: '' @ model_type))],
                             s)
                        | Inr (Some res) \<Rightarrow>
                            (None, [send_response msg_id True (Some res) None], s))))))"

definition handle_unload_model :: "string \<Rightarrow> string option \<Rightarrow> pb_state \<Rightarrow> pb_result" where
  "handle_unload_model msg_id model_id s =
     (case model_id of
        None \<Rightarrow> (None, [send_response msg_id False None (Some (not_loaded model_id))], s)
      | Some mid \<Rightarrow>
          if mid \<in> set (keys (pb_models s)) then
            (let s1 = s\<lparr>pb_models := AList.delete mid (pb_models s)\<rparr> in
             if mid \<in> set (keys (pb_model_types s1)) then
               (None,
                [send_response msg_id True
                   (Some (JObj [(''message'', JStr (''Model '' @ mid @ '' unloaded''))])) None],
                s1\<lparr>pb_model_types := AList.delete mid (pb_model_types s1)\<rparr>)
             else (Some (key_error mid), [], s1))
          else (None, [send_response msg_id False None (Some (not_loaded model_id))], s))"

text \<open>
  The list that \<open>handle_status\<close> builds by trying four imports in turn: the module
  imported and the name appended when it is found.
\<close>

definition packages :: "pb_env \<Rightarrow> string list" where
  "packages env =
     map snd (filter (\<lambda>(module, name). importable env module)
        [(''sklearn'', ''sklearn''), (''tensorflow'', ''tensorflow''),
         (''tflite_runtime'', ''tflite''), (''numpy'', ''numpy'')])"

definition handle_status :: "pb_env \<Rightarrow> string \<Rightarrow> pb_state \<Rightarrow> pb_result" where
  "handle_status env msg_id s =
     (None,
      [send_response msg_id True
         (Some (JObj
            [(''loaded_models'', JArr (map JStr (keys (pb_models s)))),
             (''model_types'', JObj (map (\<lambda>(k, t). (k, JStr t)) (pb_model_types s))),
             (''packages'', JArr (map JStr (packages env))),
             (''python_version'', JStr (python_version env))]))
         None],
      s)"

subsection \<open>The read loop\<close>

text \<open>
  A parsed request object, as \<open>main\<close> reads it with \<open>msg.get\<close>: a field that is missing
  is \<open>None\<close>. The fields \<open>id\<close>, \<open>command\<close>, \<open>model_path\<close> and \<open>model_id\<close> hold strings
  when they are there, as the protocol says; \<open>input_data\<close> is any JSON value, \<open>JNull\<close>
  when it is missing.
\<close>

record msg =
  m_id :: "string option"
  m_command :: "string option"
  m_model_path :: "string option"
  m_model_id :: "string option"
  m_input_data :: json

text \<open>
  A line of stdin after \<open>strip\<close>: empty, not JSON (with the decoder's message), JSON that
  is not an object, or a request object. The loop is modelled on a finite prefix of stdin;
  the handler of SIGTERM and SIGINT, which answers and exits at any moment, is left out.
\<close>

datatype line = Blank | BadJson string | NotObject | Msg msg

text \<open>How the loop ended: stdin closed, a \<open>shutdown\<close> command, or an uncaught exception.\<close>

datatype stop = EndOfInput | ShutDown | Crashed py_exc

text \<open>The \<open>except\<close> clause of the loop: an exception out of a handler becomes a response.\<close>

definition guarded :: "pb_env \<Rightarrow> string \<Rightarrow> pb_result \<Rightarrow> response list \<times> pb_state \<times> bool" where
  "guarded env msg_id r =
     (case r of
        (None, out, s) \<Rightarrow> (out, s, False)
      | (Some e, out, s) \<Rightarrow>
          (out @ [send_response msg_id False None
                    (Some (''Error: '' @ exc_str e @ [CHR 0x0A] @ pb_format_exc env e))],
           s, False))"

text \<open>\<open>msg.get("id", "unknown")\<close> and \<open>msg.get("command", "")\<close>.\<close>

definition get_id :: "msg \<Rightarrow> string" where
  "get_id m = (case m_id m of None \<Rightarrow> ''unknown'' | Some i \<Rightarrow> i)"

definition get_command :: "msg \<Rightarrow> string" where
  "get_command m = (case m_command m of None \<Rightarrow> [] | Some c \<Rightarrow> c)"

text \<open>
  One request: the responses written, the new state, and whether the loop breaks.
\<close>

definition dispatch :: "pb_env \<Rightarrow> msg \<Rightarrow> pb_state \<Rightarrow> response list \<times> pb_state \<times> bool" where
  "dispatch env m s =
     (let msg_id = get_id m;
          command = get_command m
      in if command = ''load_model'' then
           guarded env msg_id (handle_load_model env msg_id (m_model_path m) (m_model_id m) s)
         else if command = ''predict'' then
           guarded env msg_id (handle_predict env msg_id (m_model_id m) (m_input_data m) s)
         else if command = ''unload_model'' then
           guarded env msg_id (handle_unload_model msg_id (m_model_id m) s)
         else if command = ''status'' then
           guarded env msg_id (handle_status env msg_id s)
         else if command = ''shutdown'' then
           ([send_response msg_id True (Some (JObj [(''message'', JStr ''Shutting down'')])) None],
            s, True)
         else if command = ''ping'' then
           ([send_response msg_id True (Some (JObj [(''message'', JStr ''pong'')])) None],
            s, False)
         else
           ([send_response msg_id False None (Some (''Unknown command: '' @ command))],
            s, False))"

definition not_object_error :: py_exc where
  "not_object_error = PyExc ''AttributeError'' ''object has no attribute 'get' ''"

fun main_loop :: "pb_env \<Rightarrow> line list \<Rightarrow> pb_state \<Rightarrow> response list \<times> pb_state \<times> stop" where
  "main_loop env [] s = ([], s, EndOfInput)"
| "main_loop env (Blank # ls) s = main_loop env ls s"
| "main_loop env (BadJson e # ls) s =
     (case main_loop env ls s of
        (out, s', st) \<Rightarrow>
          (send_response ''error'' False None (Some (''Invalid JSON: '' @ e)) # out, s', st))"
| "main_loop env (NotObject # ls) s = ([], s, Crashed not_object_error)"
| "main_loop env (Msg m # ls) s =
     (case dispatch env m s of
        (out1, s1, True) \<Rightarrow> (out1, s1, ShutDown)
      | (out1, s1, False) \<Rightarrow>
          (case main_loop env ls s1 of (out, s', st) \<Rightarrow> (out1 @ out, s', st)))"

definition pb_init :: pb_state where
  "pb_init = \<lparr>pb_models = [], pb_model_types = []\<rparr>"

text \<open>\<open>main\<close>: the ready message, then the loop on the empty registry.\<close>

definition pb_main :: "pb_env \<Rightarrow> line list \<Rightarrow> response list \<times> pb_state \<times> stop" where
  "pb_main env ls =
     (case main_loop env ls pb_init of
        (out, s, st) \<Rightarrow>
          (send_response ''ready'' True
             (Some (JObj [(''message'', JStr ''Python bridge ready'')])) None # out, s, st))"

section \<open>The HTTP bridge (\<open>max_bridge.py\<close>)\<close>

text \<open>The dict that \<open>_models[model_id]\<close> holds.\<close>

record model_entry =
  me_model :: handle
  me_backend :: string
  me_path :: string

text \<open>The module-level dict \<open>_stats\<close>.\<close>

record stats =
  requests_total :: int
  inference_total :: int
  errors_total :: int
  avg_inference_time_ms :: real
  start_time :: real

text \<open>
  The module's state: \<open>_models\<close>, \<open>_stats\<close> and the shared MAX session
  \<open>_inference_session\<close>. (\<open>_model_info\<close> is declared and never used.)
\<close>

record mb_state =
  mb_models :: "(string, model_entry) dict"
  mb_stats :: stats
  inference_session :: "handle option"

text \<open>
  A model that MAX has loaded, with the names that the metadata \<open>try\<close> block of
  \<open>load_model_max\<close> ends with (empty where the attribute is missing or reading it raises).
\<close>

record max_model =
  mm_handle :: handle
  mm_input_names :: "string list"
  mm_output_names :: "string list"

text \<open>An ONNX Runtime session and what it answers about itself.\<close>

record ort_session =
  ort_handle :: handle
  ort_input_names :: "string list"
  ort_output_names :: "string list"
  ort_input_shapes :: "json list"
  ort_providers :: "string list"

text \<open>
  What \<open>model.execute\<close> of MAX returns: a dict, whose values have \<open>tolist\<close> or not;
  something with \<open>tolist\<close>; or anything else.
\<close>

datatype max_output =
    OutDict "(string \<times> (ndarray + json)) list"
  | OutArray ndarray
  | OutOther json

text \<open>
  The environment of the HTTP bridge: which engines imported at start-up, the file system,
  the MAX sessions that can be created (\<open>None\<close> when the constructor raises), the engines'
  load and run calls, numpy on strings and dicts, the traceback text, and \<open>round(x, 2)\<close>
  on floats.
\<close>

record mb_env =
  MAX_AVAILABLE :: bool
  ONNX_AVAILABLE :: bool
  path_exists :: "string \<Rightarrow> bool"
  gpu_session :: "handle option"
  cpu_session :: "handle option"
  max_session_load :: "handle \<Rightarrow> string \<Rightarrow> py_exc + max_model"
  ort_InferenceSession :: "string \<Rightarrow> py_exc + ort_session"
  max_execute :: "handle \<Rightarrow> ndarray \<Rightarrow> py_exc + max_output"
  ort_run :: "handle \<Rightarrow> ndarray \<Rightarrow> py_exc + ndarray list"
  mb_np_other :: "json \<Rightarrow> py_exc + float32"
  mb_format_exc :: "py_exc \<Rightarrow> string"
  round2 :: "real \<Rightarrow> real"

text \<open>A Flask response: the status code and the object given to \<open>jsonify\<close>.\<close>

record http_response =
  status :: nat
  body :: "(string \<times> json) list"

definition field :: "string \<Rightarrow> http_response \<Rightarrow> json option" where
  "field k r = map_of (body r) k"

definition get_inference_session :: "mb_env \<Rightarrow> mb_state \<Rightarrow> handle option \<times> mb_state" where
  "get_inference_session env s =
     (let s1 = (if MAX_AVAILABLE env \<and> inference_session s = None
                then s\<lparr>inference_session :=
                        (case gpu_session env of
                           Some h \<Rightarrow> Some h
                         | None \<Rightarrow> cpu_session env)\<rparr>
                else s)
      in (inference_session s1, s1))"

text \<open>
  \<open>load_model_max\<close> and \<open>load_model_onnx\<close>: the metadata dict returned, or the exception
  raised, and the state. The registry is written only after the engine has loaded the file.
\<close>

definition load_model_max ::
  "mb_env \<Rightarrow> string \<Rightarrow> string \<Rightarrow> mb_state \<Rightarrow> (py_exc + (string \<times> json) list) \<times> mb_state" where
  "load_model_max env model_path model_id s =
     (case get_inference_session env s of
        (None, s1) \<Rightarrow> (Inl (PyExc ''RuntimeError'' ''MAX Engine session not available''), s1)
      | (Some session, s1) \<Rightarrow>
          (case max_session_load env session model_path of
             Inl e \<Rightarrow> (Inl e, s1)
           | Inr model \<Rightarrow>
               (Inr [(''model_id'', JStr model_id),
                     (''backend'', JStr ''max''),
                     (''input_names'', JArr (map JStr (mm_input_names model))),
                     (''output_names'', JArr (map JStr (mm_output_names model)))],
                s1\<lparr>mb_models :=
                     AList.update model_id
                       \<lparr>me_model = mm_handle model, me_backend = ''max'', me_path = model_path\<rparr>
                       (mb_models s1)\<rparr>)))"

definition load_model_onnx ::
  "mb_env \<Rightarrow> string \<Rightarrow> string \<Rightarrow> mb_state \<Rightarrow> (py_exc + (string \<times> json) list) \<times> mb_state" where
  "load_model_onnx env model_path model_id s =
     (if \<not> ONNX_AVAILABLE env
      then (Inl (PyExc ''NameError'' ''name 'ort' is not defined''), s)
      else
        (case ort_InferenceSession env model_path of
           Inl e \<Rightarrow> (Inl e, s)
         | Inr session \<Rightarrow>
             (Inr [(''model_id'', JStr model_id),
                   (''backend'', JStr ''onnx''),
                   (''input_names'', JArr (map JStr (ort_input_names session))),
                   (''output_names'', JArr (map JStr (ort_output_names session))),
                   (''input_shapes'', JArr (ort_input_shapes session)),
                   (''providers'', JArr (map JStr (ort_providers session)))],
              s\<lparr>mb_models :=
                   AList.update model_id
                     \<lparr>me_model = ort_handle session, me_backend = ''onnx'', me_path = model_path\<rparr>
                     (mb_models s)\<rparr>)))"

text \<open>
  The input of \<open>predict_max\<close> and \<open>predict_onnx\<close>: the request's JSON value (from
  \<open>predict\<close>) or an array already built (from \<open>batch_predict\<close>).
\<close>

datatype py_input = Raw json | Tensor ndarray

text \<open>
  "Prepare input" and "Ensure batch dimension": a list becomes an array, anything else is
  used as it is, and reading \<open>.shape\<close> of a value that is not an array raises.
\<close>

definition prepare_input :: "mb_env \<Rightarrow> py_input \<Rightarrow> py_exc + ndarray" where
  "prepare_input env input_data =
     (case (case input_data of
              Raw (JArr xs) \<Rightarrow> np_array (mb_np_other env) (JArr xs)
            | Raw v \<Rightarrow> Inl (PyExc ''AttributeError'' ''object has no attribute 'shape' '')
            | Tensor a \<Rightarrow> Inr a) of
        Inl e \<Rightarrow> Inl e
      | Inr input_array \<Rightarrow> Inr (ensure_batch input_array))"

definition model_not_loaded :: "string \<Rightarrow> string" where
  "model_not_loaded model_id = ''Model '' @ model_id @ '' not loaded''"

definition predict_max :: "mb_env \<Rightarrow> string \<Rightarrow> py_input \<Rightarrow> mb_state \<Rightarrow> py_exc + json" where
  "predict_max env model_id input_data s =
     (case map_of (mb_models s) model_id of
        None \<Rightarrow> Inl (PyExc ''ValueError'' (model_not_loaded model_id))
      | Some model_info \<Rightarrow>
          (case prepare_input env input_data of
             Inl e \<Rightarrow> Inl e
           | Inr input_array \<Rightarrow>
               (case max_execute env (me_model model_info) input_array of
                  Inl e \<Rightarrow> Inl e
                | Inr (OutDict kvs) \<Rightarrow>
                    Inr (JObj (map (\<lambda>(k, v). (k, case v of Inl a \<Rightarrow> tolist a | Inr j \<Rightarrow> j)) kvs))
                | Inr (OutArray a) \<Rightarrow> Inr (tolist a)
                | Inr (OutOther j) \<Rightarrow> Inr j)))"

definition predict_onnx :: "mb_env \<Rightarrow> string \<Rightarrow> py_input \<Rightarrow> mb_state \<Rightarrow> py_exc + json" where
  "predict_onnx env model_id input_data s =
     (case map_of (mb_models s) model_id of
        None \<Rightarrow> Inl (PyExc ''ValueError'' (model_not_loaded model_id))
      | Some model_info \<Rightarrow>
          (case prepare_input env input_data of
             Inl e \<Rightarrow> Inl e
           | Inr input_array \<Rightarrow>
               (case ort_run env (me_model model_info) input_array of
                  Inl e \<Rightarrow> Inl e
                | Inr outputs \<Rightarrow>
                    (case outputs of
                       [out] \<Rightarrow> Inr (tolist out)
                     | _ \<Rightarrow> Inr (JArr (map tolist outputs))))))"

subsection \<open>The endpoints\<close>

text \<open>
  The JSON object of a request body, read with \<open>data.get\<close>: a field that is missing is
  \<open>None\<close>; \<open>model_path\<close>, \<open>model_id\<close> and \<open>backend\<close> hold strings when they are there;
  \<open>input_data\<close> and \<open>inputs\<close> are any JSON value, \<open>JNull\<close> when missing.
\<close>

record load_request =
  lr_model_path :: "string option"
  lr_model_id :: "string option"
  lr_backend :: "string option"

record predict_request =
  pr_model_id :: "string option"
  pr_input_data :: json

record batch_request =
  br_model_id :: "string option"
  br_inputs :: json

record unload_request =
  ur_model_id :: "string option"

definition jsonify :: "nat \<Rightarrow> (string \<times> json) list \<Rightarrow> http_response" where
  "jsonify code obj = \<lparr>status = code, body = obj\<rparr>"

definition count_request :: "mb_state \<Rightarrow> mb_state" where
  "count_request s =
     s\<lparr>mb_stats := (mb_stats s)\<lparr>requests_total := requests_total (mb_stats s) + 1\<rparr>\<rparr>"

definition count_inference :: "mb_state \<Rightarrow> mb_state" where
  "count_inference s =
     s\<lparr>mb_stats := (mb_stats s)\<lparr>inference_total := inference_total (mb_stats s) + 1\<rparr>\<rparr>"

definition count_error :: "mb_state \<Rightarrow> mb_state" where
  "count_error s =
     s\<lparr>mb_stats := (mb_stats s)\<lparr>errors_total := errors_total (mb_stats s) + 1\<rparr>\<rparr>"

text \<open>
  The \<open>except Exception\<close> clause of \<open>load_model\<close> and \<open>predict\<close>: count the error and
  answer 500 with the exception's text and traceback.
\<close>

definition internal_error :: "mb_env \<Rightarrow> py_exc \<Rightarrow> mb_state \<Rightarrow> http_response \<times> mb_state" where
  "internal_error env e s =
     (jsonify 500 [(''success'', JBool False),
                   (''error'', JStr (exc_str e)),
                   (''traceback'', JStr (mb_format_exc env e))],
      count_error s)"

text \<open>
  The backend choice of \<open>load_model\<close>: MAX when it is asked for, or on \<open>auto\<close> when it
  imported; if it raises, ONNX Runtime on \<open>auto\<close> when that imported, else the exception
  goes on; ONNX Runtime in every other case.
\<close>

definition choose_backend ::
  "mb_env \<Rightarrow> string \<Rightarrow> string \<Rightarrow> string \<Rightarrow> mb_state \<Rightarrow> (py_exc + (string \<times> json) list) \<times> mb_state" where
  "choose_backend env prefer_backend model_path model_id s =
     (if prefer_backend = ''max'' \<or> (prefer_backend = ''auto'' \<and> MAX_AVAILABLE env) then
        (case load_model_max env model_path model_id s of
           (Inl e, s1) \<Rightarrow>
             if ONNX_AVAILABLE env \<and> prefer_backend = ''auto''
             then load_model_onnx env model_path model_id s1
             else (Inl e, s1)
         | (Inr res, s1) \<Rightarrow> (Inr res, s1))
      else load_model_onnx env model_path model_id s)"

text \<open>
  The answers of \<open>load_model\<close> to an id that is in \<open>_models\<close> already (with the
  backend of the stored entry) and to a path that \<open>os.path.exists\<close> denies.
\<close>

definition already_loaded_response :: "string \<Rightarrow> string \<Rightarrow> http_response" where
  "already_loaded_response model_id backend =
     jsonify 200
       [(''success'', JBool True),
        (''message'', JStr (''Model '' @ model_id @ '' already loaded'')),
        (''model_id'', JStr model_id),
        (''backend'', JStr backend)]"

definition file_not_found_response :: "string \<Rightarrow> http_response" where
  "file_not_found_response model_path =
     jsonify 404 [(''success'', JBool False),
                  (''error'', JStr (''Model file not found: '' @ model_path))]"

text \<open>
  The answer of \<open>load_model\<close> after a backend has loaded the file: the message, the
  rounded load time, and the backend's metadata dict spliced in (\<open>**result\<close>).
\<close>

definition loaded_response :: "mb_env \<Rightarrow> string \<Rightarrow> real \<Rightarrow> (string \<times> json) list \<Rightarrow> http_response" where
  "loaded_response env model_id load_time res =
     jsonify 200
       ([(''success'', JBool True),
         (''message'', JStr (''Model '' @ model_id @ '' loaded successfully'')),
         (''load_time_ms'', JNum (round2 env load_time))] @ res)"

text \<open>
  \<open>POST /load\<close>. \<open>load_time\<close> is the measured \<open>(time.time() - start_time) * 1000\<close>.
\<close>

definition load_model ::
  "mb_env \<Rightarrow> load_request \<Rightarrow> real \<Rightarrow> mb_state \<Rightarrow> http_response \<times> mb_state" where
  "load_model env data load_time s =
     (let s0 = count_request s;
          model_path = lr_model_path data
      in case (if truthy_str (lr_model_id data) then Inr (py_str (lr_model_id data))
               else (case model_path of
                       None \<Rightarrow> Inl path_type_error
                     | Some p \<Rightarrow> Inr (basename p))) of
           Inl e \<Rightarrow> internal_error env e s0
         | Inr model_id \<Rightarrow>
             (let prefer_backend = (case lr_backend data of None \<Rightarrow> ''auto'' | Some b \<Rightarrow> b)
              in if \<not> truthy_str model_path then
                   (jsonify 400 [(''success'', JBool False),
                                 (''error'', JStr ''model_path required'')], s0)
                 else
                   (case map_of (mb_models s0) model_id of
                      Some entry \<Rightarrow>
                        (already_loaded_response model_id (me_backend entry), s0)
                    | None \<Rightarrow>
                        if \<not> path_exists env (py_str model_path) then
                          (file_not_found_response (py_str model_path), s0)
                        else
                          (case choose_backend env prefer_backend (py_str model_path) model_id s0 of
                             (Inl e, s1) \<Rightarrow> internal_error env e s1
                           | (Inr res, s1) \<Rightarrow>
                               (loaded_response env model_id load_time res, s1)))))"

text \<open>
  \<open>POST /predict\<close>. Both counters are raised before anything is read; the running mean
  is written only after the backend has returned, from the counter as it then stands
  (dividing by a counter that is 0 raises). \<open>inference_time\<close> is the measured
  \<open>(time.time() - start_time) * 1000\<close>.
\<close>

definition predict ::
  "mb_env \<Rightarrow> predict_request \<Rightarrow> real \<Rightarrow> mb_state \<Rightarrow> http_response \<times> mb_state" where
  "predict env data inference_time s =
     (let s0 = count_inference (count_request s);
          model_id = pr_model_id data;
          input_data = pr_input_data data
      in if \<not> truthy_str model_id then
           (jsonify 400 [(''success'', JBool False), (''error'', JStr ''model_id required'')], s0)
         else if input_data = JNull then
           (jsonify 400 [(''success'', JBool False), (''error'', JStr ''input_data required'')],
            s0)
         else
           (case map_of (mb_models s0) (py_str model_id) of
              None \<Rightarrow>
                (jsonify 404 [(''success'', JBool False),
                              (''error'', JStr (model_not_loaded (py_str model_id)))], s0)
            | Some entry \<Rightarrow>
                (let backend = me_backend entry in
                 case (if backend = ''max''
                       then predict_max env (py_str model_id) (Raw input_data) s0
                       else predict_onnx env (py_str model_id) (Raw input_data) s0) of
                   Inl e \<Rightarrow> internal_error env e s0
                 | Inr res \<Rightarrow>
                     (let n = inference_total (mb_stats s0) in
                      if n = 0 then
                        internal_error env
                          (PyExc ''ZeroDivisionError'' ''float division by zero'') s0
                      else
                        (let avg = (avg_inference_time_ms (mb_stats s0) * real_of_int (n - 1)
                                    + inference_time) / real_of_int n
                         in (jsonify 200
                               [(''success'', JBool True),
                                (''prediction'', res),
                                (''inference_time_ms'', JNum (round2 env inference_time)),
                                (''backend'', JStr backend)],
                             s0\<lparr>mb_stats :=
                                  (mb_stats s0)\<lparr>avg_inference_time_ms := avg\<rparr>\<rparr>))))))"

text \<open>\<open>POST /unload\<close>.\<close>

definition unload_model :: "unload_request \<Rightarrow> mb_state \<Rightarrow> http_response \<times> mb_state" where
  "unload_model data s =
     (let s0 = count_request s;
          model_id = ur_model_id data
      in if \<not> truthy_str model_id then
           (jsonify 400 [(''success'', JBool False), (''error'', JStr ''model_id required'')], s0)
         else if py_str model_id \<notin> set (keys (mb_models s0)) then
           (jsonify 404 [(''success'', JBool False),
                         (''error'', JStr (model_not_loaded (py_str model_id)))], s0)
         else
           (jsonify 200 [(''success'', JBool True),
                         (''message'', JStr (''Model '' @ py_str model_id @ '' unloaded''))],
            s0\<lparr>mb_models := AList.delete (py_str model_id) (mb_models s0)\<rparr>))"

text \<open>\<open>len(x)\<close> of a JSON value: numbers, bools and \<open>None\<close> have no length.\<close>

fun py_len :: "json \<Rightarrow> py_exc + int" where
  "py_len (JArr xs) = Inr (int (length xs))"
| "py_len (JStr s) = Inr (int (length s))"
| "py_len (JObj kvs) = Inr (int (length kvs))"
| "py_len v = Inl (PyExc ''TypeError'' ''object has no len()'')"

text \<open>
  \<open>POST /batch_predict\<close>. Its \<open>except\<close> clause leaves the traceback out. The inputs
  are stacked into one array and run in one backend call; \<open>inference_total\<close> grows by the
  number of inputs after that call, and the running mean is not touched.
\<close>

definition batch_error :: "py_exc \<Rightarrow> mb_state \<Rightarrow> http_response \<times> mb_state" where
  "batch_error e s =
     (jsonify 500 [(''success'', JBool False), (''error'', JStr (exc_str e))], count_error s)"

definition batch_predict ::
  "mb_env \<Rightarrow> batch_request \<Rightarrow> real \<Rightarrow> mb_state \<Rightarrow> http_response \<times> mb_state" where
  "batch_predict env data inference_time s =
     (let s0 = count_request s;
          model_id = br_model_id data;
          inputs = br_inputs data
      in if \<not> truthy_str model_id \<or> \<not> truthy inputs then
           (jsonify 400 [(''success'', JBool False),
                         (''error'', JStr ''model_id and inputs required'')], s0)
         else
           (case map_of (mb_models s0) (py_str model_id) of
              None \<Rightarrow>
                (jsonify 404 [(''success'', JBool False),
                              (''error'', JStr (model_not_loaded (py_str model_id)))], s0)
            | Some entry \<Rightarrow>
                (case np_array (mb_np_other env) inputs of
                   Inl e \<Rightarrow> batch_error e s0
                 | Inr batch_input \<Rightarrow>
                     (let backend = me_backend entry in
                      case (if backend = ''max''
                            then predict_max env (py_str model_id) (Tensor batch_input) s0
                            else predict_onnx env (py_str model_id) (Tensor batch_input) s0) of
                        Inl e \<Rightarrow> batch_error e s0
                      | Inr res \<Rightarrow>
                          (case py_len inputs of
                             Inl e \<Rightarrow> batch_error e s0
                           | Inr len \<Rightarrow>
                               (jsonify 200
                                  [(''success'', JBool True),
                                   (''predictions'', res),
                                   (''batch_size'', JNum (real_of_int len)),
                                   (''inference_time_ms'', JNum (round2 env inference_time)),
                                   (''per_sample_ms'',
                                      JNum (round2 env (inference_time / real_of_int len))),
                                   (''backend'', JStr backend)],
                                s0\<lparr>mb_stats := (mb_stats s0)\<lparr>inference_total :=
                                     inference_total (mb_stats s0) + len\<rparr>\<rparr>))))))"

text \<open>The state of a fresh process, started at time \<open>t0\<close>.\<close>

definition mb_init :: "real \<Rightarrow> mb_state" where
  "mb_init t0 =
     \<lparr>mb_models = [],
      mb_stats = \<lparr>requests_total = 0, inference_total = 0, errors_total = 0,
                  avg_inference_time_ms = 0, start_time = t0\<rparr>,
      inference_session = None\<rparr>"

section \<open>The Edge TPU helper (\<open>coral_inference.py\<close>)\<close>

datatype dtype = Int8 | UInt8 | Float32

text \<open>An array with its element type; an integer array holds whole numbers.\<close>

record tensor =
  dtype :: dtype
  t_shape :: "nat list"
  t_vals :: "float32 list"

text \<open>
  One entry of \<open>get_input_details()\<close> or \<open>get_output_details()\<close>: the element type,
  the shape, and the pair \<open>quantization = (scale, zero_point)\<close>.
\<close>

record details =
  d_dtype :: dtype
  d_shape :: "nat list"
  d_quantization :: "real \<times> int"

text \<open>
  The environment of the helper: the Edge TPU devices found; the interpreter made for a
  model file, as its input and output details, or the exception raised; numpy's conversion
  of one Python value to an element type; the C cast of \<open>astype(np.int8)\<close>; and one run of
  the interpreter (\<open>set_tensor\<close>, \<open>invoke\<close>, \<open>get_tensor\<close>).
\<close>

record coral_env =
  list_edge_tpus :: "string list"
  make_interpreter :: "string \<Rightarrow> py_exc + details \<times> details"
  np_cast :: "dtype \<Rightarrow> json \<Rightarrow> py_exc + float32"
  astype_int8 :: "real \<Rightarrow> real"
  invoke :: "tensor \<Rightarrow> py_exc + tensor"

text \<open>\<open>np.round\<close>: to the nearest whole number, a tie to the even one.\<close>

definition np_round :: "real \<Rightarrow> real" where
  "np_round x =
     (let f = \<lfloor>x\<rfloor>; r = x - of_int f
      in if r < 1 / 2 then of_int f
         else if 1 / 2 < r then of_int f + 1
         else if even f then of_int f else of_int f + 1)"

text \<open>
  \<open>np.round(input_array / scale + zero_point).astype(np.int8)\<close>, the quantization
  written in the helper.
\<close>

definition quantize :: "coral_env \<Rightarrow> real \<times> int \<Rightarrow> tensor \<Rightarrow> tensor" where
  "quantize env q a =
     (case q of
        (scale, zero_point) \<Rightarrow>
          a\<lparr>dtype := Int8,
            t_vals := map (map_option
                        (\<lambda>x. astype_int8 env (np_round (x / scale + of_int zero_point))))
                        (t_vals a)\<rparr>)"

text \<open>
  "Prepare input", "Reshape if needed" and "Quantize if needed": the array is built with
  the element type of the model's input, reshaped to the expected shape when the shapes
  differ (which raises when the sizes differ), and quantized when the model's input type
  is \<open>int8\<close> and the array's type is \<open>float32\<close>.
\<close>

definition coral_prepare :: "coral_env \<Rightarrow> details \<Rightarrow> json \<Rightarrow> py_exc + tensor" where
  "coral_prepare env input_details input_data =
     (case np_array_of (np_cast env (d_dtype input_details)) input_data of
        Inl e \<Rightarrow> Inl e
      | Inr (sh, es) \<Rightarrow>
          (let input_array = \<lparr>dtype = d_dtype input_details, t_shape = sh, t_vals = es\<rparr>;
               expected_shape = d_shape input_details
           in case (if t_shape input_array \<noteq> expected_shape
                    then (if prod_list expected_shape = length (t_vals input_array)
                          then Inr (input_array\<lparr>t_shape := expected_shape\<rparr>)
                          else Inl (PyExc ''ValueError'' ''cannot reshape array''))
                    else Inr input_array) of
                Inl e \<Rightarrow> Inl e
              | Inr input_array \<Rightarrow>
                  Inr (if d_dtype input_details = Int8
                       then (if dtype input_array = Float32
                             then quantize env (d_quantization input_details) input_array
                             else input_array)
                       else input_array)))"

text \<open>
  "Dequantize if needed":
  \<open>(output_data.astype(np.float32) - zero_point) * scale\<close> for an \<open>int8\<close> output.
\<close>

definition dequantize :: "details \<Rightarrow> tensor \<Rightarrow> tensor" where
  "dequantize output_details output_data =
     (if d_dtype output_details = Int8
      then (case d_quantization output_details of
              (scale, zero_point) \<Rightarrow>
                output_data\<lparr>dtype := Float32,
                  t_vals := map (map_option (\<lambda>q. (q - of_int zero_point) * scale))
                              (t_vals output_data)\<rparr>)
      else output_data)"

text \<open>
  The \<open>try\<close> block of \<open>main\<close> from the device check on: the output tensor after
  dequantization, or the exception that makes the helper print an error and exit 1.
\<close>

definition coral_run :: "coral_env \<Rightarrow> string \<Rightarrow> json \<Rightarrow> py_exc + tensor" where
  "coral_run env model_path input_data =
     (if list_edge_tpus env = []
      then Inl (PyExc ''SystemExit'' ''No Coral Edge TPU device found'')
      else
        (case make_interpreter env model_path of
           Inl e \<Rightarrow> Inl e
         | Inr (input_details, output_details) \<Rightarrow>
             (case coral_prepare env input_details input_data of
                Inl e \<Rightarrow> Inl e
              | Inr input_array \<Rightarrow>
                  (case invoke env input_array of
                     Inl e \<Rightarrow> Inl e
                   | Inr output_data \<Rightarrow> Inr (dequantize output_details output_data)))))"

section \<open>Example environments and requests\<close>

text \<open>
  A streaming bridge in whose environment numpy is installed and one Keras model file
  exists, and a request that names it.
\<close>

definition pb_env_example :: pb_env where
  "pb_env_example =
     \<lparr>keras_load = (\<lambda>p. if p = ''models/demo.h5'' then Inr 1
                         else Inl (PyExc ''OSError'' (''No file or directory found at '' @ p))),
      joblib_load = (\<lambda>p. Inl (PyExc ''FileNotFoundError'' (''No such file or directory: '' @ p))),
      pickle_load = (\<lambda>p. Inl (PyExc ''FileNotFoundError'' (''No such file or directory: '' @ p))),
      tflite_load = (\<lambda>p. Inl (PyExc ''ValueError'' (''Could not open '' @ p))),
      keras_predict = (\<lambda>h a. Inr \<lparr>shape = [1, 1], elems = [Some 0]\<rparr>),
      has_predict_proba = (\<lambda>h. False),
      sklearn_predict_proba = (\<lambda>h a. Inl (PyExc ''AttributeError'' ''predict_proba'')),
      sklearn_predict = (\<lambda>h a. Inr \<lparr>shape = [1], elems = [Some 0]\<rparr>),
      tflite_invoke = (\<lambda>h a. Inr \<lparr>shape = [1, 1], elems = [Some 0]\<rparr>),
      pb_np_other = (\<lambda>v. Inl (PyExc ''ValueError'' ''could not convert to float'')),
      importable = (\<lambda>module. module = ''numpy''),
      python_version = ''3.11.4'',
      pb_format_exc = (\<lambda>e. ''Traceback (most recent call last)'')\<rparr>"

definition msg_example :: "string \<Rightarrow> string \<Rightarrow> msg" where
  "msg_example i c =
     \<lparr>m_id = Some i, m_command = Some c, m_model_path = Some ''models/demo.h5'',
      m_model_id = Some ''demo'', m_input_data = JArr [JNum 1, JNum 2]\<rparr>"

text \<open>A streaming bridge that holds one Keras model.\<close>

definition pb_state_example :: pb_state where
  "pb_state_example = \<lparr>pb_models = [(''demo'', 1)], pb_model_types = [(''demo'', ''keras'')]\<rparr>"

text \<open>
  An HTTP bridge where both engines imported, MAX can open a CPU session but cannot load
  the one model file that exists, and ONNX Runtime can; and a state of it that holds that
  model after one inference of 10 ms.
\<close>

definition mb_env_example :: mb_env where
  "mb_env_example =
     \<lparr>MAX_AVAILABLE = True,
      ONNX_AVAILABLE = True,
      path_exists = (\<lambda>p. p = ''models/demo/model.onnx''),
      gpu_session = None,
      cpu_session = Some 7,
      max_session_load = (\<lambda>h p. Inl (PyExc ''ValueError'' ''unsupported model format'')),
      ort_InferenceSession =
        (\<lambda>p. if p = ''models/demo/model.onnx''
             then Inr \<lparr>ort_handle = 3, ort_input_names = [''input''],
                       ort_output_names = [''output''],
                       ort_input_shapes = [JArr [JNull, JNum 5]],
                       ort_providers = [''CPUExecutionProvider'']\<rparr>
             else Inl (PyExc ''NoSuchFile'' (''Load model from '' @ p @ '' failed''))),
      max_execute = (\<lambda>h a. Inl (PyExc ''RuntimeError'' ''no MAX model'')),
      ort_run = (\<lambda>h a. Inr [\<lparr>shape = [1, 1], elems = [Some 0]\<rparr>]),
      mb_np_other = (\<lambda>v. Inl (PyExc ''ValueError'' ''could not convert to float'')),
      mb_format_exc = (\<lambda>e. ''Traceback (most recent call last)''),
      round2 = (\<lambda>x. x)\<rparr>"

definition mb_state_example :: mb_state where
  "mb_state_example =
     \<lparr>mb_models = [(''demo'', \<lparr>me_model = 3, me_backend = ''onnx'',
                                me_path = ''models/demo/model.onnx''\<rparr>)],
      mb_stats = \<lparr>requests_total = 2, inference_total = 1, errors_total = 0,
                  avg_inference_time_ms = 10, start_time = 0\<rparr>,
      inference_session = None\<rparr>"

text \<open>A load request for the model file of the example, backend left to \<open>auto\<close>.\<close>

definition load_request_example :: load_request where
  "load_request_example =
     \<lparr>lr_model_path = Some ''models/demo/model.onnx'', lr_model_id = Some ''demo'',
      lr_backend = None\<rparr>"

text \<open>The state of the example HTTP bridge after its first load.\<close>

definition mb_state_loaded :: mb_state where
  "mb_state_loaded =
     \<lparr>mb_models = [(''demo'', \<lparr>me_model = 3, me_backend = ''onnx'',
                                me_path = ''models/demo/model.onnx''\<rparr>)],
      mb_stats = \<lparr>requests_total = 1, inference_total = 0, errors_total = 0,
                  avg_inference_time_ms = 0, start_time = 0\<rparr>,
      inference_session = Some 7\<rparr>"

text \<open>A two-by-two input, as a model with input shape \<open>(1, 2, 2)\<close> would be sent.\<close>

definition matrix_example :: json where
  "matrix_example = JArr [JArr [JNum 1, JNum 2], JArr [JNum 3, JNum 4]]"

text \<open>Predict and batch requests for a model id, with small inputs.\<close>

definition predict_request_example :: "string \<Rightarrow> predict_request" where
  "predict_request_example k = \<lparr>pr_model_id = Some k, pr_input_data = JArr [JNum 1, JNum 2]\<rparr>"

definition batch_request_example :: "string \<Rightarrow> batch_request" where
  "batch_request_example k =
     \<lparr>br_model_id = Some k, br_inputs = JArr [JArr [JNum 1, JNum 2], JArr [JNum 3, JNum 4]]\<rparr>"

text \<open>
  An Edge TPU with a model whose input and output are \<open>int8\<close>, with input quantization
  \<open>(0.5, 0)\<close> and output quantization \<open>(0.25, -3)\<close>; numpy's conversion to an integer
  type drops the fraction of a number in range.
\<close>

definition coral_env_example :: coral_env where
  "coral_env_example =
     \<lparr>list_edge_tpus = [''usb:0''],
      make_interpreter =
        (\<lambda>p. Inr (\<lparr>d_dtype = Int8, d_shape = [1, 2], d_quantization = (1 / 2, 0)\<rparr>,
                  \<lparr>d_dtype = Int8, d_shape = [1, 1], d_quantization = (1 / 4, - 3)\<rparr>)),
      np_cast =
        (\<lambda>d v. case v of
                 JNum x \<Rightarrow>
                   Inr (Some (if d = Float32 then x
                              else if 0 \<le> x then of_int \<lfloor>x\<rfloor> else of_int \<lceil>x\<rceil>))
               | _ \<Rightarrow> Inl (PyExc ''TypeError'' ''int() argument must be a number'')),
      astype_int8 = (\<lambda>x. if 0 \<le> x then of_int \<lfloor>x\<rfloor> else of_int \<lceil>x\<rceil>),
      invoke = (\<lambda>a. Inr \<lparr>dtype = Int8, t_shape = [1, 1], t_vals = [Some 5]\<rparr>)\<rparr>"

section \<open>Predicates used in the statements\<close>

text \<open>The two dicts of the streaming bridge hold the same keys.\<close>

definition same_keys :: "pb_state \<Rightarrow> bool" where
  "same_keys s = (set (keys (pb_models s)) = set (keys (pb_model_types s)))"

text \<open>The state in a triple that a handler, \<open>dispatch\<close> or the loop returns.\<close>

definition pb_state_of :: "'a \<times> pb_state \<times> 'b \<Rightarrow> pb_state" where
  "pb_state_of r = fst (snd r)"

text \<open>
  On the streaming bridge a load of \<open>p\<close> cannot succeed: the extension has no loader, or
  the loader raises (as each loader does on a file that is not there). And the error text
  that \<open>handle_load_model\<close> then sends.
\<close>

definition loader_raises :: "pb_env \<Rightarrow> string \<Rightarrow> bool" where
  "loader_raises env p =
     (case load_by_ext env (lower (splitext_ext p)) p of
        Some (Inr m) \<Rightarrow> False
      | _ \<Rightarrow> True)"

definition load_failure_text :: "pb_env \<Rightarrow> string \<Rightarrow> string" where
  "load_failure_text env p =
     (case load_by_ext env (lower (splitext_ext p)) p of
        None \<Rightarrow> ''Unsupported model format: '' @ lower (splitext_ext p)
      | Some (Inl e) \<Rightarrow> exc_str e
      | Some (Inr m) \<Rightarrow> [])"

section \<open>The handlers of the streaming bridge\<close>

lemma keys_update: "set (keys (AList.update k v d)) = insert k (set (keys d))"
  by (simp add: keys_def dom_update)

lemma keys_delete: "set (keys (AList.delete k d)) = set (keys d) - {k}"
  by (simp add: keys_def delete_keys)

lemma map_of_keys: "map_of d k = None \<longleftrightarrow> k \<notin> set (keys d)"
  by (simp add: keys_def map_of_eq_None_iff)

text \<open>
  What \<open>handle_load_model\<close> does to the state: nothing, or one new id written to both
  dicts, and then the response is the success message.
\<close>

lemma handle_load_model_state:
  assumes "handle_load_model env i p mid s = (exc, out, s1)"
  shows "s1 = s \<or>
         (\<exists>k h t. k \<notin> set (keys (pb_models s)) \<and> exc = None \<and>
            out = [send_response i True
                     (Some (JObj [(''message'', JStr (''Model '' @ k @ '' loaded successfully'')),
                                  (''model_id'', JStr k), (''model_type'', JStr t)])) None] \<and>
            s1 = s\<lparr>pb_models := AList.update k h (pb_models s),
                   pb_model_types := AList.update k t (pb_model_types s)\<rparr>)"
  using assms unfolding handle_load_model_def Let_def
  apply (cases "if truthy_str mid then Inr (py_str mid)
                else (case p of None \<Rightarrow> Inl path_type_error
                      | Some q \<Rightarrow> (Inr (basename q) :: py_exc + string))")
   apply simp
  apply (simp only: sum.case)
  apply (simp split: if_splits option.splits sum.splits prod.splits)
  apply auto
  done

text \<open>What \<open>handle_unload_model\<close> does: it refuses an id that is not loaded, and
  otherwise deletes the id from \<open>_models\<close> and then from \<open>_model_types\<close>.\<close>

lemma handle_unload_model_state:
  assumes "handle_unload_model i mid s = (exc, out, s1)"
  shows "(s1 = s \<and> exc = None \<and> out = [send_response i False None (Some (not_loaded mid))]
            \<and> (\<forall>k. mid = Some k \<longrightarrow> k \<notin> set (keys (pb_models s))))
       \<or> (\<exists>k. mid = Some k \<and> k \<in> set (keys (pb_models s))
            \<and> pb_models s1 = AList.delete k (pb_models s)
            \<and> (if k \<in> set (keys (pb_model_types s))
                then exc = None \<and> pb_model_types s1 = AList.delete k (pb_model_types s)
                     \<and> out = [send_response i True
                                (Some (JObj [(''message'', JStr (''Model '' @ k @ '' unloaded''))]))
                                None]
                else exc = Some (key_error k) \<and> out = []
                     \<and> pb_model_types s1 = pb_model_types s))"
  using assms unfolding handle_unload_model_def Let_def
  apply (cases mid)
   apply simp
  apply (simp split: if_splits)
  apply auto
  done

lemma guarded_state: "guarded env i (exc, out, s) = (out1, s1, b) \<Longrightarrow> s1 = s \<and> \<not> b"
  by (cases exc) (auto simp: guarded_def)

lemma handle_predict_state: "handle_predict env i mid inp s = (exc, out, s1) \<Longrightarrow> s1 = s"
  unfolding handle_predict_def
  by (cases "importable env ''numpy''") (auto split: option.splits sum.splits)

lemma load_same_keys:
  assumes "same_keys s" and "handle_load_model env i p mid s = (exc, out, s1)"
  shows "same_keys s1"
proof -
  from handle_load_model_state[OF assms(2)]
  consider "s1 = s"
    | k h t where "pb_models s1 = AList.update k h (pb_models s)"
        "pb_model_types s1 = AList.update k t (pb_model_types s)"
    by fastforce
  then show ?thesis
  proof cases
    case 1
    with assms(1) show ?thesis by simp
  next
    case 2
    with assms(1) show ?thesis by (simp add: same_keys_def keys_update)
  qed
qed

lemma unload_same_keys:
  assumes "same_keys s" and "handle_unload_model i mid s = (exc, out, s1)"
  shows "same_keys s1"
  using handle_unload_model_state[OF assms(2)] assms(1)
  by (auto simp: same_keys_def keys_delete split: if_splits)

lemma dispatch_same_keys:
  assumes "same_keys s" and "dispatch env m s = (out, s1, b)"
  shows "same_keys s1"
proof -
  let ?i = "get_id m"
  let ?c = "get_command m"
  consider (load) "?c = ''load_model''" | (predict) "?c = ''predict''"
    | (unload) "?c = ''unload_model''" | (status) "?c = ''status''"
    | (other) "?c \<noteq> ''load_model''" "?c \<noteq> ''predict''" "?c \<noteq> ''unload_model''"
        "?c \<noteq> ''status''"
    by blast
  then show ?thesis
  proof cases
    case load
    obtain exc o1 s2 where
      h: "handle_load_model env ?i (m_model_path m) (m_model_id m) s = (exc, o1, s2)"
      using prod_cases3 by blast
    from assms(2) load h have "guarded env ?i (exc, o1, s2) = (out, s1, b)"
      by (simp add: dispatch_def Let_def)
    then have "s1 = s2" by (simp add: guarded_state)
    with load_same_keys[OF assms(1) h] show ?thesis by simp
  next
    case predict
    obtain exc o1 s2 where
      h: "handle_predict env ?i (m_model_id m) (m_input_data m) s = (exc, o1, s2)"
      using prod_cases3 by blast
    from assms(2) predict h have "guarded env ?i (exc, o1, s2) = (out, s1, b)"
      by (simp add: dispatch_def Let_def)
    then have "s1 = s2" by (simp add: guarded_state)
    with handle_predict_state[OF h] assms(1) show ?thesis by simp
  next
    case unload
    obtain exc o1 s2 where
      h: "handle_unload_model ?i (m_model_id m) s = (exc, o1, s2)"
      using prod_cases3 by blast
    from assms(2) unload h have "guarded env ?i (exc, o1, s2) = (out, s1, b)"
      by (simp add: dispatch_def Let_def)
    then have "s1 = s2" by (simp add: guarded_state)
    with unload_same_keys[OF assms(1) h] show ?thesis by simp
  next
    case status
    from assms(2) status have "guarded env ?i (handle_status env ?i s) = (out, s1, b)"
      by (simp add: dispatch_def Let_def)
    then have "s1 = s" by (simp add: handle_status_def guarded_state)
    with assms(1) show ?thesis by simp
  next
    case other
    with assms(2) have "s1 = s"
      by (simp add: dispatch_def Let_def split: if_splits)
    with assms(1) show ?thesis by simp
  qed
qed

lemma main_loop_same_keys:
  "same_keys s \<Longrightarrow> main_loop env ls s = (out, s1, st) \<Longrightarrow> same_keys s1"
proof (induction env ls s arbitrary: out s1 st rule: main_loop.induct)
  case (1 env s)
  then show ?case by simp
next
  case (2 env ls s)
  then show ?case by simp
next
  case (3 env e ls s)
  then show ?case by (simp split: prod.splits)
next
  case (4 env ls s)
  then show ?case by simp
next
  case (5 env m ls s)
  obtain o1 s2 b where d: "dispatch env m s = (o1, s2, b)"
    using prod_cases3 by blast
  have k: "same_keys s2" using dispatch_same_keys[OF "5.prems"(1) d] .
  show ?case
  proof (cases b)
    case True
    with d "5.prems"(2) k show ?thesis by simp
  next
    case False
    obtain o2 s3 st2 where r: "main_loop env ls s2 = (o2, s3, st2)"
      using prod_cases3 by blast
    have "same_keys s3"
      using "5.IH"[OF d[symmetric] refl _ k r] False by simp
    with d False r "5.prems"(2) show ?thesis by simp
  qed
qed

lemma pb_main_same_keys: "same_keys (pb_state_of (pb_main env ls))"
proof -
  obtain out s1 st where r: "main_loop env ls pb_init = (out, s1, st)"
    using prod_cases3 by blast
  have "same_keys pb_init" by (simp add: same_keys_def pb_init_def keys_def)
  from main_loop_same_keys[OF this r] r show ?thesis
    by (simp add: pb_main_def pb_state_of_def)
qed

section \<open>The read loop and the registry of the streaming bridge\<close>

text \<open>
  Claim C9. On the streaming transport, a request line whose command is none of the six
  recognized ones is answered by exactly one response, with \<open>success = False\<close>, the error
  text \<open>Unknown command: <name>\<close> and the request's id; the state is unchanged and the loop
  goes on with the remaining lines.
\<close>

theorem unknown_command_reply:
  assumes "get_command m \<notin>
             set [''load_model'', ''predict'', ''unload_model'', ''status'', ''shutdown'', ''ping'']"
  shows "main_loop env (Msg m # ls) s =
           (case main_loop env ls s of
              (out, s1, st) \<Rightarrow>
                (\<lparr>resp_id = get_id m, success = False, result = None,
                  error = Some (''Unknown command: '' @ get_command m)\<rparr> # out, s1, st))"
proof -
  from assms have "dispatch env m s =
      ([send_response (get_id m) False None (Some (''Unknown command: '' @ get_command m))],
       s, False)"
    by (simp add: dispatch_def Let_def)
  then show ?thesis
    by (simp add: send_response_def split: prod.splits)
qed

theorem unknown_command_reply_witness:
  "get_command (msg_example ''7'' ''frob'') \<notin>
     set [''load_model'', ''predict'', ''unload_model'', ''status'', ''shutdown'', ''ping'']
   \<and> main_loop pb_env_example [Msg (msg_example ''7'' ''frob''), Msg (msg_example ''8'' ''ping'')]
         pb_init =
       ([\<lparr>resp_id = ''7'', success = False, result = None,
           error = Some ''Unknown command: frob''\<rparr>,
         \<lparr>resp_id = ''8'', success = True,
           result = Some (JObj [(''message'', JStr ''pong'')]), error = None\<rparr>],
        pb_init, EndOfInput)"
proof -
  have h: "get_command (msg_example ''7'' ''frob'') \<notin>
     set [''load_model'', ''predict'', ''unload_model'', ''status'', ''shutdown'', ''ping'']"
    by (simp add: get_command_def msg_example_def)
  have r: "main_loop pb_env_example [Msg (msg_example ''8'' ''ping'')] pb_init =
      ([\<lparr>resp_id = ''8'', success = True,
           result = Some (JObj [(''message'', JStr ''pong'')]), error = None\<rparr>],
        pb_init, EndOfInput)"
    by (simp add: dispatch_def Let_def get_command_def get_id_def msg_example_def
          send_response_def)
  from unknown_command_reply[OF h, of pb_env_example "[Msg (msg_example ''8'' ''ping'')]" pb_init]
  have "main_loop pb_env_example
          [Msg (msg_example ''7'' ''frob''), Msg (msg_example ''8'' ''ping'')] pb_init =
       ([\<lparr>resp_id = get_id (msg_example ''7'' ''frob''), success = False, result = None,
           error = Some (''Unknown command: '' @ get_command (msg_example ''7'' ''frob''))\<rparr>,
         \<lparr>resp_id = ''8'', success = True,
           result = Some (JObj [(''message'', JStr ''pong'')]), error = None\<rparr>],
        pb_init, EndOfInput)"
    by (simp only: r prod.case)
  then show ?thesis using h
    by (simp add: get_command_def get_id_def msg_example_def)
qed

text \<open>The definitions that evaluate the streaming bridge on an example.\<close>

lemmas pb_eval = handle_load_model_def load_by_ext_def load_keras_model_def lower_def
  lower_char_def splitext_ext_def basename_def keys_def pb_env_example_def send_response_def
  Let_def pb_state_example_def handle_unload_model_def not_loaded_def pb_init_def


text \<open>
  Claim C10. In the streaming bridge the dicts \<open>_models\<close> and \<open>_model_types\<close> hold the
  same set of keys after every handled command: in the state that \<open>main\<close> ends with on
  any input, and across any one request from a state where they agree. A load either leaves
  the state as it was or writes one new id to both dicts, and then it answers success; a load
  that raises or answers \<open>success = False\<close> leaves the state as it was; an unload either
  refuses and leaves the state as it was, or deletes its id from both dicts.
\<close>

theorem registry_dicts_same_keys:
  "same_keys (pb_state_of (pb_main env ls))
   \<and> (same_keys s \<longrightarrow> same_keys (pb_state_of (dispatch env m s)))
   \<and> (handle_load_model env i p mid s = (exc, out, s1) \<longrightarrow>
        s1 = s
        \<or> (\<exists>k h t. k \<notin> set (keys (pb_models s)) \<and> exc = None \<and> map success out = [True]
              \<and> pb_models s1 = AList.update k h (pb_models s)
              \<and> pb_model_types s1 = AList.update k t (pb_model_types s)))
   \<and> (handle_load_model env i' p' mid' s = (exc', out', s2)
        \<and> (exc' \<noteq> None \<or> False \<in> set (map success out')) \<longrightarrow> s2 = s)
   \<and> (same_keys s \<and> handle_unload_model j uid s = (exc2, out2, s3) \<longrightarrow>
        (s3 = s \<and> map success out2 = [False])
        \<or> (\<exists>k. uid = Some k \<and> k \<in> set (keys (pb_models s)) \<and> map success out2 = [True]
              \<and> pb_models s3 = AList.delete k (pb_models s)
              \<and> pb_model_types s3 = AList.delete k (pb_model_types s)))"
proof (intro conjI impI)
  show "same_keys (pb_state_of (pb_main env ls))"
    by (rule pb_main_same_keys)
next
  assume k: "same_keys s"
  obtain o1 s2 b where d: "dispatch env m s = (o1, s2, b)"
    using prod_cases3 by blast
  from dispatch_same_keys[OF k d] d show "same_keys (pb_state_of (dispatch env m s))"
    by (simp add: pb_state_of_def)
next
  assume h: "handle_load_model env i p mid s = (exc, out, s1)"
  from handle_load_model_state[OF h]
  show "s1 = s
        \<or> (\<exists>k h t. k \<notin> set (keys (pb_models s)) \<and> exc = None \<and> map success out = [True]
              \<and> pb_models s1 = AList.update k h (pb_models s)
              \<and> pb_model_types s1 = AList.update k t (pb_model_types s))"
  proof
    assume "s1 = s" then show ?thesis by simp
  next
    assume "\<exists>k h t. k \<notin> set (keys (pb_models s)) \<and> exc = None \<and>
            out = [send_response i True
                     (Some (JObj [(''message'', JStr (''Model '' @ k @ '' loaded successfully'')),
                                  (''model_id'', JStr k), (''model_type'', JStr t)])) None] \<and>
            s1 = s\<lparr>pb_models := AList.update k h (pb_models s),
                   pb_model_types := AList.update k t (pb_model_types s)\<rparr>"
    then obtain k h t where "k \<notin> set (keys (pb_models s))" "exc = None"
      "map success out = [True]"
      "pb_models s1 = AList.update k h (pb_models s)"
      "pb_model_types s1 = AList.update k t (pb_model_types s)"
      by (fastforce simp: send_response_def)
    then show ?thesis
      by (intro disjI2 exI[of _ k] exI[of _ h] exI[of _ t]) simp
  qed
next
  assume "handle_load_model env i' p' mid' s = (exc', out', s2)
        \<and> (exc' \<noteq> None \<or> False \<in> set (map success out'))"
  then have h: "handle_load_model env i' p' mid' s = (exc', out', s2)"
    and f: "exc' \<noteq> None \<or> False \<in> set (map success out')" by simp_all
  from handle_load_model_state[OF h]
  show "s2 = s"
  proof
    assume "s2 = s" then show ?thesis .
  next
    assume "\<exists>k h t. k \<notin> set (keys (pb_models s)) \<and> exc' = None \<and>
            out' = [send_response i' True
                     (Some (JObj [(''message'', JStr (''Model '' @ k @ '' loaded successfully'')),
                                  (''model_id'', JStr k), (''model_type'', JStr t)])) None] \<and>
            s2 = s\<lparr>pb_models := AList.update k h (pb_models s),
                   pb_model_types := AList.update k t (pb_model_types s)\<rparr>"
    then have "exc' = None" "map success out' = [True]"
      by (fastforce simp: send_response_def)+
    with f show ?thesis by simp
  qed
next
  assume "same_keys s \<and> handle_unload_model j uid s = (exc2, out2, s3)"
  then have k: "same_keys s" and h: "handle_unload_model j uid s = (exc2, out2, s3)"
    by simp_all
  from handle_unload_model_state[OF h] k
  show "(s3 = s \<and> map success out2 = [False])
        \<or> (\<exists>k. uid = Some k \<and> k \<in> set (keys (pb_models s)) \<and> map success out2 = [True]
              \<and> pb_models s3 = AList.delete k (pb_models s)
              \<and> pb_model_types s3 = AList.delete k (pb_model_types s))"
    by (auto simp: same_keys_def send_response_def split: if_splits)
qed


theorem registry_dicts_same_keys_witness:
  "same_keys pb_state_example
   \<and> handle_load_model pb_env_example ''1'' (Some ''models/demo.h5'') (Some ''demo2'')
        pb_state_example =
       (None,
        [\<lparr>resp_id = ''1'', success = True,
          result = Some (JObj [(''message'', JStr ''Model demo2 loaded successfully''),
                               (''model_id'', JStr ''demo2''), (''model_type'', JStr ''keras'')]),
          error = None\<rparr>],
        \<lparr>pb_models = [(''demo'', 1), (''demo2'', 1)],
         pb_model_types = [(''demo'', ''keras''), (''demo2'', ''keras'')]\<rparr>)
   \<and> handle_load_model pb_env_example ''2'' (Some ''models/missing.pkl'') None
        pb_state_example =
       (None,
        [\<lparr>resp_id = ''2'', success = False, result = None,
          error = Some ''No such file or directory: models/missing.pkl''\<rparr>],
        pb_state_example)
   \<and> handle_unload_model ''3'' (Some ''demo'') pb_state_example =
       (None,
        [\<lparr>resp_id = ''3'', success = True,
          result = Some (JObj [(''message'', JStr ''Model demo unloaded'')]), error = None\<rparr>],
        pb_init)
   \<and> same_keys (pb_state_of (dispatch pb_env_example (msg_example ''4'' ''unload_model'')
                               pb_state_example))
   \<and> same_keys (pb_state_of (pb_main pb_env_example [Msg (msg_example ''5'' ''load_model'')]))"
proof -
  have k: "same_keys pb_state_example"
    by (simp add: same_keys_def pb_state_example_def keys_def)
  have l1: "handle_load_model pb_env_example ''1'' (Some ''models/demo.h5'') (Some ''demo2'')
        pb_state_example =
       (None,
        [\<lparr>resp_id = ''1'', success = True,
          result = Some (JObj [(''message'', JStr ''Model demo2 loaded successfully''),
                               (''model_id'', JStr ''demo2''), (''model_type'', JStr ''keras'')]),
          error = None\<rparr>],
        \<lparr>pb_models = [(''demo'', 1), (''demo2'', 1)],
         pb_model_types = [(''demo'', ''keras''), (''demo2'', ''keras'')]\<rparr>)"
    by (simp add: pb_eval)
  have l2: "handle_load_model pb_env_example ''2'' (Some ''models/missing.pkl'') None
        pb_state_example =
       (None,
        [\<lparr>resp_id = ''2'', success = False, result = None,
          error = Some ''No such file or directory: models/missing.pkl''\<rparr>],
        pb_state_example)"
    by (simp add: pb_eval load_sklearn_model_def)
  have u: "handle_unload_model ''3'' (Some ''demo'') pb_state_example =
       (None,
        [\<lparr>resp_id = ''3'', success = True,
          result = Some (JObj [(''message'', JStr ''Model demo unloaded'')]), error = None\<rparr>],
        pb_init)"
    by (simp add: pb_eval)
  note t = registry_dicts_same_keys[of pb_env_example "[Msg (msg_example ''5'' ''load_model'')]"
      pb_state_example "msg_example ''4'' ''unload_model''"]
  from t k have
    "same_keys (pb_state_of (dispatch pb_env_example (msg_example ''4'' ''unload_model'')
                               pb_state_example))"
    "same_keys (pb_state_of (pb_main pb_env_example [Msg (msg_example ''5'' ''load_model'')]))"
    by blast+
  with k l1 l2 u show ?thesis by blast
qed

section \<open>Unloading, then predicting\<close>

lemma unload_then_absent:
  assumes "handle_unload_model i (Some k) s = (exc, out, s1)"
  shows "map_of (pb_models s1) k = None"
proof -
  from handle_unload_model_state[OF assms]
  consider "s1 = s" "k \<notin> set (keys (pb_models s))"
    | "pb_models s1 = AList.delete k (pb_models s)"
    by auto
  then show ?thesis
  proof cases
    case 1
    then show ?thesis by (simp add: map_of_keys)
  next
    case 2
    then show ?thesis by (simp add: delete_conv')
  qed
qed

lemma handle_predict_absent:
  assumes "importable env ''numpy''"
    and "mid = None \<or> (\<exists>k. mid = Some k \<and> map_of (pb_models s) k = None)"
  shows "handle_predict env j mid inp s =
           (None, [send_response j False None (Some (not_loaded mid))], s)"
  using assms by (auto simp: handle_predict_def)

lemma handle_predict_no_numpy:
  assumes "\<not> importable env ''numpy''"
  shows "guarded env j (handle_predict env j mid inp s) =
           ([send_response j False None
               (Some (''Error: '' @ exc_str numpy_import_error @ [CHR 0x0A]
                      @ pb_format_exc env numpy_import_error))],
            s, False)"
  using assms by (simp add: handle_predict_def guarded_def)

lemma mb_unload_then_absent:
  assumes "unload_model data s = (r, s1)"
  shows "map_of (mb_models s1) (py_str (ur_model_id data)) = None \<or> \<not> truthy_str (ur_model_id data)"
proof (cases "truthy_str (ur_model_id data)")
  case False
  then show ?thesis by simp
next
  case True
  show ?thesis
  proof (cases "py_str (ur_model_id data) \<in> set (keys (mb_models s))")
    case False
    with True assms have "mb_models s1 = mb_models s"
      by (auto simp: unload_model_def Let_def count_request_def)
    with False show ?thesis by (simp add: map_of_keys)
  next
    case k: True
    with True assms have "mb_models s1 = AList.delete (py_str (ur_model_id data)) (mb_models s)"
      by (auto simp: unload_model_def Let_def count_request_def)
    then show ?thesis by (simp add: delete_conv')
  qed
qed

lemma predict_models_counted:
  "mb_models (count_inference (count_request s)) = mb_models s"
  by (simp add: count_request_def count_inference_def)

lemma predict_absent:
  assumes "map_of (mb_models s) (py_str mid) = None" "truthy_str mid" "inp \<noteq> JNull"
  shows "fst (predict env \<lparr>pr_model_id = mid, pr_input_data = inp\<rparr> t s) =
           \<lparr>status = 404, body = [(''success'', JBool False),
                                  (''error'', JStr (model_not_loaded (py_str mid)))]\<rparr>"
  using assms by (simp add: predict_def Let_def predict_models_counted jsonify_def)

lemma predict_invalid:
  assumes "\<not> truthy_str mid \<or> inp = JNull"
  shows "status (fst (predict env \<lparr>pr_model_id = mid, pr_input_data = inp\<rparr> t s)) = 400
       \<and> field ''success'' (fst (predict env \<lparr>pr_model_id = mid, pr_input_data = inp\<rparr> t s))
           = Some (JBool False)"
  using assms by (auto simp: predict_def Let_def jsonify_def field_def)

text \<open>
  Claim C8, as amended. Unload followed by predict on the same model id is answered with
  \<open>success = False\<close>. On the streaming transport, where numpy is installed, the error
  is \<open>Model <id> not loaded\<close> for every id (a missing id prints as \<open>None\<close>), every
  input and whatever the unload answered; where numpy is not installed the handler's
  \<open>import\<close> raises before the registry is looked at, and the loop answers with the
  error \<open>Error: \<close> followed by the exception's text and traceback. On the HTTP transport
  the answer is the 404 response with the error \<open>Model <id> not loaded\<close> for every predict
  request that names a model id that is not empty and carries \<open>input_data\<close>; any other
  predict request is turned away by the endpoint's validation, with status 400, before the
  registry is looked at.
\<close>

theorem unload_then_predict_not_loaded:
  "(handle_unload_model i mid s = (exc, out, s1) \<longrightarrow>
      (importable env ''numpy'' \<longrightarrow>
         handle_predict env j mid inp s1 =
           (None,
            [\<lparr>resp_id = j, success = False, result = None,
              error = Some (''Model '' @ py_str mid @ '' not loaded'')\<rparr>],
            s1))
      \<and> (\<not> importable env ''numpy'' \<longrightarrow>
           guarded env j (handle_predict env j mid inp s1) =
             ([\<lparr>resp_id = j, success = False, result = None,
                error = Some (''Error: '' @ exc_str numpy_import_error @ [CHR 0x0A]
                              @ pb_format_exc env numpy_import_error)\<rparr>],
              s1, False)))
   \<and> (unload_model \<lparr>ur_model_id = hid\<rparr> hs = (r1, hs1) \<longrightarrow>
        field ''success'' (fst (predict henv \<lparr>pr_model_id = hid, pr_input_data = hinp\<rparr> t hs1))
          = Some (JBool False)
        \<and> (truthy_str hid \<and> hinp \<noteq> JNull \<longrightarrow>
             fst (predict henv \<lparr>pr_model_id = hid, pr_input_data = hinp\<rparr> t hs1) =
               \<lparr>status = 404,
                body = [(''success'', JBool False),
                        (''error'', JStr (''Model '' @ py_str hid @ '' not loaded''))]\<rparr>))"
proof -
  have A: "handle_unload_model i mid s = (exc, out, s1) \<longrightarrow>
      (importable env ''numpy'' \<longrightarrow>
         handle_predict env j mid inp s1 =
           (None,
            [\<lparr>resp_id = j, success = False, result = None,
              error = Some (''Model '' @ py_str mid @ '' not loaded'')\<rparr>],
            s1))"
  proof (intro impI)
    assume u: "handle_unload_model i mid s = (exc, out, s1)"
      and n: "importable env ''numpy''"
    have "mid = None \<or> (\<exists>k. mid = Some k \<and> map_of (pb_models s1) k = None)"
    proof (cases mid)
      case None
      then show ?thesis by simp
    next
      case (Some k)
      with u unload_then_absent[of i k s exc out s1] show ?thesis by simp
    qed
    from handle_predict_absent[OF n this]
    show "handle_predict env j mid inp s1 =
          (None,
           [\<lparr>resp_id = j, success = False, result = None,
             error = Some (''Model '' @ py_str mid @ '' not loaded'')\<rparr>],
           s1)"
      by (simp add: send_response_def not_loaded_def)
  qed
  have B: "\<not> importable env ''numpy'' \<longrightarrow>
           guarded env j (handle_predict env j mid inp s1) =
             ([\<lparr>resp_id = j, success = False, result = None,
                error = Some (''Error: '' @ exc_str numpy_import_error @ [CHR 0x0A]
                              @ pb_format_exc env numpy_import_error)\<rparr>],
              s1, False)"
  proof
    assume n: "\<not> importable env ''numpy''"
    from handle_predict_no_numpy[OF n, of j mid inp s1]
    show "guarded env j (handle_predict env j mid inp s1) =
             ([\<lparr>resp_id = j, success = False, result = None,
                error = Some (''Error: '' @ exc_str numpy_import_error @ [CHR 0x0A]
                              @ pb_format_exc env numpy_import_error)\<rparr>],
              s1, False)"
      by (simp add: send_response_def)
  qed
  have C: "unload_model \<lparr>ur_model_id = hid\<rparr> hs = (r1, hs1) \<longrightarrow>
        field ''success'' (fst (predict henv \<lparr>pr_model_id = hid, pr_input_data = hinp\<rparr> t hs1))
          = Some (JBool False)"
  proof
    assume u: "unload_model \<lparr>ur_model_id = hid\<rparr> hs = (r1, hs1)"
    from mb_unload_then_absent[OF u]
    have a: "map_of (mb_models hs1) (py_str hid) = None \<or> \<not> truthy_str hid" by simp
    show "field ''success'' (fst (predict henv \<lparr>pr_model_id = hid, pr_input_data = hinp\<rparr> t hs1))
            = Some (JBool False)"
    proof (cases "truthy_str hid \<and> hinp \<noteq> JNull")
      case True
      with a predict_absent[of hs1 hid hinp henv t] show ?thesis
        by (simp add: field_def)
    next
      case False
      with predict_invalid[of hid hinp henv t hs1] show ?thesis by blast
    qed
  qed
  have D: "unload_model \<lparr>ur_model_id = hid\<rparr> hs = (r1, hs1) \<longrightarrow>
        (truthy_str hid \<and> hinp \<noteq> JNull \<longrightarrow>
             fst (predict henv \<lparr>pr_model_id = hid, pr_input_data = hinp\<rparr> t hs1) =
               \<lparr>status = 404,
                body = [(''success'', JBool False),
                        (''error'', JStr (''Model '' @ py_str hid @ '' not loaded''))]\<rparr>)"
  proof (intro impI)
    assume u: "unload_model \<lparr>ur_model_id = hid\<rparr> hs = (r1, hs1)"
      and v: "truthy_str hid \<and> hinp \<noteq> JNull"
    from mb_unload_then_absent[OF u] v
    have "map_of (mb_models hs1) (py_str hid) = None" by simp
    from predict_absent[OF this, of hinp henv t] v
    show "fst (predict henv \<lparr>pr_model_id = hid, pr_input_data = hinp\<rparr> t hs1) =
                 \<lparr>status = 404,
                  body = [(''success'', JBool False),
                          (''error'', JStr (''Model '' @ py_str hid @ '' not loaded''))]\<rparr>"
      by (simp add: model_not_loaded_def)
  qed
  from A B C D show ?thesis by blast
qed

text \<open>
  The claim as stated fails on the HTTP transport, where the endpoint validates the
  request first: after an unload, a predict request without \<open>input_data\<close> is answered
  \<open>input_data required\<close>, and for the empty model id both requests are answered
  \<open>model_id required\<close>.
\<close>

theorem unload_then_predict_validation_counterexample:
  "unload_model \<lparr>ur_model_id = Some ''demo''\<rparr> mb_state_example =
     (\<lparr>status = 200,
       body = [(''success'', JBool True), (''message'', JStr ''Model demo unloaded'')]\<rparr>,
      mb_state_example\<lparr>mb_models := [],
        mb_stats := (mb_stats mb_state_example)\<lparr>requests_total := 3\<rparr>\<rparr>)
   \<and> fst (predict mb_env_example \<lparr>pr_model_id = Some ''demo'', pr_input_data = JNull\<rparr> 4
            (mb_state_example\<lparr>mb_models := [],
               mb_stats := (mb_stats mb_state_example)\<lparr>requests_total := 3\<rparr>\<rparr>)) =
       \<lparr>status = 400,
        body = [(''success'', JBool False), (''error'', JStr ''input_data required'')]\<rparr>
   \<and> fst (unload_model \<lparr>ur_model_id = Some []\<rparr> mb_state_example) =
       \<lparr>status = 400,
        body = [(''success'', JBool False), (''error'', JStr ''model_id required'')]\<rparr>
   \<and> fst (predict mb_env_example \<lparr>pr_model_id = Some [], pr_input_data = JArr [JNum 1, JNum 2]\<rparr>
            4 (snd (unload_model \<lparr>ur_model_id = Some []\<rparr> mb_state_example))) =
       \<lparr>status = 400,
        body = [(''success'', JBool False), (''error'', JStr ''model_id required'')]\<rparr>"
  by (simp add: unload_model_def predict_def Let_def count_request_def mb_state_example_def
        keys_def jsonify_def)

theorem unload_then_predict_not_loaded_witness:
  "handle_unload_model ''3'' (Some ''demo'') pb_state_example =
       (None,
        [\<lparr>resp_id = ''3'', success = True,
          result = Some (JObj [(''message'', JStr ''Model demo unloaded'')]), error = None\<rparr>],
        pb_init)
   \<and> importable pb_env_example ''numpy''
   \<and> handle_predict pb_env_example ''4'' (Some ''demo'') (JArr [JNum 1, JNum 2]) pb_init =
        (None,
         [\<lparr>resp_id = ''4'', success = False, result = None,
           error = Some ''Model demo not loaded''\<rparr>],
         pb_init)
   \<and> \<not> importable (pb_env_example\<lparr>importable := (\<lambda>module. False)\<rparr>) ''numpy''
   \<and> guarded (pb_env_example\<lparr>importable := (\<lambda>module. False)\<rparr>) ''4''
         (handle_predict (pb_env_example\<lparr>importable := (\<lambda>module. False)\<rparr>) ''4''
            (Some ''demo'') (JArr [JNum 1, JNum 2]) pb_init) =
        ([\<lparr>resp_id = ''4'', success = False, result = None,
           error = Some (''Error: '' @ exc_str numpy_import_error @ [CHR 0x0A]
                         @ ''Traceback (most recent call last)'')\<rparr>],
         pb_init, False)
   \<and> unload_model \<lparr>ur_model_id = Some ''demo''\<rparr> mb_state_example =
        (\<lparr>status = 200,
          body = [(''success'', JBool True), (''message'', JStr ''Model demo unloaded'')]\<rparr>,
         mb_state_example\<lparr>mb_models := [],
           mb_stats := (mb_stats mb_state_example)\<lparr>requests_total := 3\<rparr>\<rparr>)
   \<and> truthy_str (Some ''demo'') \<and> JArr [JNum 1, JNum 2] \<noteq> JNull
   \<and> fst (predict mb_env_example
             \<lparr>pr_model_id = Some ''demo'', pr_input_data = JArr [JNum 1, JNum 2]\<rparr> 4
             (mb_state_example\<lparr>mb_models := [],
                mb_stats := (mb_stats mb_state_example)\<lparr>requests_total := 3\<rparr>\<rparr>)) =
       \<lparr>status = 404,
        body = [(''success'', JBool False), (''error'', JStr ''Model demo not loaded'')]\<rparr>"
proof -
  let ?nenv = "pb_env_example\<lparr>importable := (\<lambda>module. False)\<rparr>"
  let ?inp = "JArr [JNum 1, JNum 2]"
  let ?hs1 = "mb_state_example\<lparr>mb_models := [],
           mb_stats := (mb_stats mb_state_example)\<lparr>requests_total := 3\<rparr>\<rparr>"
  have u: "handle_unload_model ''3'' (Some ''demo'') pb_state_example =
       (None,
        [\<lparr>resp_id = ''3'', success = True,
          result = Some (JObj [(''message'', JStr ''Model demo unloaded'')]), error = None\<rparr>],
        pb_init)"
    by (simp add: pb_eval)
  have n1: "importable pb_env_example ''numpy''"
    by (simp add: pb_env_example_def)
  have n2: "\<not> importable ?nenv ''numpy''"
    by simp
  have f: "pb_format_exc ?nenv numpy_import_error = ''Traceback (most recent call last)''"
    by (simp add: pb_env_example_def)
  have hu: "unload_model \<lparr>ur_model_id = Some ''demo''\<rparr> mb_state_example =
        (\<lparr>status = 200,
          body = [(''success'', JBool True), (''message'', JStr ''Model demo unloaded'')]\<rparr>,
         ?hs1)"
    by (simp add: unload_model_def Let_def count_request_def mb_state_example_def keys_def
          jsonify_def)
  have v: "truthy_str (Some ''demo'') \<and> ?inp \<noteq> JNull" by simp
  note t1 = unload_then_predict_not_loaded[where i = "''3''" and mid = "Some ''demo''"
      and s = pb_state_example and exc = None and ?s1.0 = pb_init and env = pb_env_example
      and j = "''4''" and inp = ?inp and hid = "Some ''demo''" and hs = mb_state_example
      and ?hs1.0 = ?hs1 and henv = mb_env_example and hinp = ?inp and t = 4]
  note t2 = unload_then_predict_not_loaded[where i = "''3''" and mid = "Some ''demo''"
      and s = pb_state_example and exc = None and ?s1.0 = pb_init and env = ?nenv
      and j = "''4''" and inp = ?inp]
  from t1 u n1 have p1: "handle_predict pb_env_example ''4'' (Some ''demo'') ?inp pb_init =
        (None,
         [\<lparr>resp_id = ''4'', success = False, result = None,
           error = Some ''Model demo not loaded''\<rparr>],
         pb_init)"
    by simp
  from t2 u n2 have "guarded ?nenv ''4'' (handle_predict ?nenv ''4'' (Some ''demo'') ?inp pb_init) =
        ([\<lparr>resp_id = ''4'', success = False, result = None,
           error = Some (''Error: '' @ exc_str numpy_import_error @ [CHR 0x0A]
                         @ pb_format_exc ?nenv numpy_import_error)\<rparr>],
         pb_init, False)"
    by blast
  then have p3: "guarded ?nenv ''4'' (handle_predict ?nenv ''4'' (Some ''demo'') ?inp pb_init) =
        ([\<lparr>resp_id = ''4'', success = False, result = None,
           error = Some (''Error: '' @ exc_str numpy_import_error @ [CHR 0x0A]
                         @ ''Traceback (most recent call last)'')\<rparr>],
         pb_init, False)"
    by (simp only: f)
  from t1 hu v have p2: "fst (predict mb_env_example
             \<lparr>pr_model_id = Some ''demo'', pr_input_data = ?inp\<rparr> 4 ?hs1) =
       \<lparr>status = 404,
        body = [(''success'', JBool False), (''error'', JStr ''Model demo not loaded'')]\<rparr>"
    by simp
  from u n1 p1 n2 p3 hu v p2 show ?thesis by blast
qed

section \<open>Loading\<close>

lemma models_count_request [simp]: "mb_models (count_request s) = mb_models s"
  by (simp add: count_request_def)

lemma load_model_reaches_backend:
  assumes "lr_model_path data = Some p" "p \<noteq> []"
    and "mid = (if truthy_str (lr_model_id data) then py_str (lr_model_id data) else basename p)"
    and "map_of (mb_models s) mid = None" "path_exists env p"
  shows "load_model env data t s =
           (case choose_backend env (case lr_backend data of None \<Rightarrow> ''auto'' | Some b \<Rightarrow> b)
                   p mid (count_request s) of
              (Inl e, s1) \<Rightarrow> internal_error env e s1
            | (Inr res, s1) \<Rightarrow> (loaded_response env mid t res, s1))"
proof (cases "truthy_str (lr_model_id data)")
  case True
  with assms have m: "mid = py_str (lr_model_id data)"
    and a: "map_of (mb_models s) (py_str (lr_model_id data)) = None" by simp_all
  from True a assms(1,2,5) show ?thesis
    unfolding m by (simp add: load_model_def Let_def)
next
  case False
  with assms have m: "mid = basename p"
    and a: "map_of (mb_models s) (basename p) = None" by simp_all
  from False a assms(1,2,5) show ?thesis
    unfolding m by (simp add: load_model_def Let_def)
qed

lemma choose_backend_auto:
  assumes "MAX_AVAILABLE env"
    and "load_model_max env p mid s = (mr, s1)"
  shows "choose_backend env ''auto'' p mid s =
           (case mr of
              Inr res \<Rightarrow> (Inr res, s1)
            | Inl e \<Rightarrow> if ONNX_AVAILABLE env then load_model_onnx env p mid s1 else (Inl e, s1))"
  using assms by (simp add: choose_backend_def split: sum.splits)

lemma load_model_max_stats: "load_model_max env p mid s = (r, s1) \<Longrightarrow> mb_stats s1 = mb_stats s"
  by (auto simp: load_model_max_def get_inference_session_def Let_def
        split: option.splits sum.splits if_splits)

lemma load_model_onnx_stats: "load_model_onnx env p mid s = (r, s1) \<Longrightarrow> mb_stats s1 = mb_stats s"
  by (auto simp: load_model_onnx_def split: sum.splits if_splits)

lemma load_model_onnx_unavailable:
  "\<not> ONNX_AVAILABLE env \<Longrightarrow> isl (fst (load_model_onnx env p mid s))"
  by (simp add: load_model_onnx_def)

lemma status_internal_error [simp]: "status (fst (internal_error env e s)) = 500"
  by (simp add: internal_error_def jsonify_def)

lemma success_internal_error [simp]:
  "field ''success'' (fst (internal_error env e s)) = Some (JBool False)"
  by (simp add: internal_error_def jsonify_def field_def)

lemma status_loaded_response [simp]: "status (loaded_response env mid t res) = 200"
  by (simp add: loaded_response_def jsonify_def)

lemma success_loaded_response [simp]:
  "field ''success'' (loaded_response env mid t res) = Some (JBool True)"
  by (simp add: loaded_response_def jsonify_def field_def)

text \<open>The definitions that evaluate the HTTP bridge on an example.\<close>

lemmas mb_eval = load_model_max_def load_model_onnx_def get_inference_session_def
  count_request_def count_inference_def count_error_def mb_init_def mb_env_example_def load_request_example_def
  mb_state_example_def jsonify_def field_def loaded_response_def Let_def


text \<open>
  Claim C2. A load request with backend \<open>auto\<close> (given or by default), on a bridge where
  MAX imported, that reaches the backend choice (it names a path that exists and an id that
  is not loaded yet): MAX is tried first, and when it loads the file the answer is its
  success response; when MAX raises and ONNX Runtime imported, ONNX Runtime is tried on the
  state MAX left, and when it loads the file the answer is the plain success response of the
  ONNX load, with no trace of the MAX failure and \<open>errors_total\<close> as it was. The response
  has \<open>success = False\<close> (status 500) exactly when MAX raised and ONNX Runtime is missing
  or raised too.
\<close>

theorem auto_load_falls_back_to_onnx:
  assumes "lr_backend data = None \<or> lr_backend data = Some ''auto''"
    and "MAX_AVAILABLE env"
    and "lr_model_path data = Some p" and "p \<noteq> []"
    and "mid = (if truthy_str (lr_model_id data) then py_str (lr_model_id data) else basename p)"
    and "map_of (mb_models s) mid = None" and "path_exists env p"
    and "load_model_max env p mid (count_request s) = (mr, s1)"
    and "load_model_onnx env p mid s1 = (orr, s2)"
  shows "(\<forall>res. mr = Inr res \<longrightarrow>
            load_model env data t s = (loaded_response env mid t res, s1))
       \<and> (\<forall>e res. mr = Inl e \<and> ONNX_AVAILABLE env \<and> orr = Inr res \<longrightarrow>
            load_model env data t s = (loaded_response env mid t res, s2)
            \<and> errors_total (mb_stats s2) = errors_total (mb_stats s))
       \<and> (field ''success'' (fst (load_model env data t s)) =
            Some (JBool (\<not> isl mr \<or> (ONNX_AVAILABLE env \<and> \<not> isl orr))))
       \<and> (status (fst (load_model env data t s)) \<noteq> 200 \<longleftrightarrow>
            isl mr \<and> (ONNX_AVAILABLE env \<longrightarrow> isl orr))"
proof -
  have pb: "(case lr_backend data of None \<Rightarrow> ''auto'' | Some b \<Rightarrow> b) = ''auto''"
    using assms(1) by auto
  have lm: "load_model env data t s =
           (case choose_backend env ''auto'' p mid (count_request s) of
              (Inl e, s1) \<Rightarrow> internal_error env e s1
            | (Inr res, s1) \<Rightarrow> (loaded_response env mid t res, s1))"
    using load_model_reaches_backend[OF assms(3,4,5,6,7), of t] by (simp only: pb)
  have cb: "choose_backend env ''auto'' p mid (count_request s) =
           (case mr of
              Inr res \<Rightarrow> (Inr res, s1)
            | Inl e \<Rightarrow> if ONNX_AVAILABLE env then (orr, s2) else (Inl e, s1))"
    using choose_backend_auto[OF assms(2,8)] assms(9) by (simp split: sum.splits)
  have st: "mb_stats s2 = mb_stats s1" "mb_stats s1 = mb_stats (count_request s)"
    using load_model_onnx_stats[OF assms(9)] load_model_max_stats[OF assms(8)] by simp_all
  have er: "errors_total (mb_stats s2) = errors_total (mb_stats s)"
    using st by (simp add: count_request_def)
  show ?thesis
  proof (cases mr)
    case (Inr res)
    with lm cb show ?thesis by simp
  next
    case (Inl e)
    show ?thesis
    proof (cases "ONNX_AVAILABLE env")
      case False
      with Inl lm cb show ?thesis by simp
    next
      case True
      show ?thesis
      proof (cases orr)
        case ol: (Inl e2)
        with Inl True lm cb show ?thesis by simp
      next
        case orx: (Inr res)
        with Inl True lm cb er show ?thesis by simp
      qed
    qed
  qed
qed



theorem auto_load_falls_back_to_onnx_witness:
  "(lr_backend load_request_example = None \<or> lr_backend load_request_example = Some ''auto'')
   \<and> MAX_AVAILABLE mb_env_example
   \<and> lr_model_path load_request_example = Some ''models/demo/model.onnx''
   \<and> ''models/demo/model.onnx'' \<noteq> []
   \<and> map_of (mb_models (mb_init 0)) ''demo'' = None
   \<and> path_exists mb_env_example ''models/demo/model.onnx''
   \<and> isl (fst (load_model_max mb_env_example ''models/demo/model.onnx'' ''demo''
                  (count_request (mb_init 0))))
   \<and> ONNX_AVAILABLE mb_env_example
   \<and> status (fst (load_model mb_env_example load_request_example 12 (mb_init 0))) = 200
   \<and> field ''success'' (fst (load_model mb_env_example load_request_example 12 (mb_init 0)))
       = Some (JBool True)
   \<and> field ''backend'' (fst (load_model mb_env_example load_request_example 12 (mb_init 0)))
       = Some (JStr ''onnx'')
   \<and> errors_total (mb_stats (snd (load_model mb_env_example load_request_example 12
                                     (mb_init 0)))) = 0"
proof -
  let ?p = "''models/demo/model.onnx''"
  let ?s1 = "(count_request (mb_init 0))\<lparr>inference_session := Some 7\<rparr>"
  let ?res = "[(''model_id'', JStr ''demo''), (''backend'', JStr ''onnx''),
               (''input_names'', JArr [JStr ''input'']),
               (''output_names'', JArr [JStr ''output'']),
               (''input_shapes'', JArr [JArr [JNull, JNum 5]]),
               (''providers'', JArr [JStr ''CPUExecutionProvider''])]"
  let ?s2 = "?s1\<lparr>mb_models := [(''demo'', \<lparr>me_model = 3, me_backend = ''onnx'',
                                              me_path = ?p\<rparr>)]\<rparr>"
  have h1: "lr_backend load_request_example = None \<or> lr_backend load_request_example = Some ''auto''"
    by (simp add: load_request_example_def)
  have h2: "MAX_AVAILABLE mb_env_example" "ONNX_AVAILABLE mb_env_example"
    "path_exists mb_env_example ?p"
    by (simp_all add: mb_env_example_def)
  have h3: "lr_model_path load_request_example = Some ?p" "?p \<noteq> []"
    by (simp_all add: load_request_example_def)
  have h5: "''demo'' = (if truthy_str (lr_model_id load_request_example)
                        then py_str (lr_model_id load_request_example) else basename ?p)"
    by (simp add: load_request_example_def)
  have h6: "map_of (mb_models (mb_init 0)) ''demo'' = None"
    by (simp add: mb_init_def)
  have mx: "load_model_max mb_env_example ?p ''demo'' (count_request (mb_init 0)) =
              (Inl (PyExc ''ValueError'' ''unsupported model format''), ?s1)"
    by (simp add: mb_eval)
  have ox: "load_model_onnx mb_env_example ?p ''demo'' ?s1 = (Inr ?res, ?s2)"
    by (simp add: mb_eval)
  from auto_load_falls_back_to_onnx[OF h1 h2(1) h3 h5 h6 h2(3) mx ox, of 12] h2(2)
  have r: "load_model mb_env_example load_request_example 12 (mb_init 0) =
             (loaded_response mb_env_example ''demo'' 12 ?res, ?s2)"
    by simp
  have c: "status (loaded_response mb_env_example ''demo'' 12 ?res) = 200"
    "field ''success'' (loaded_response mb_env_example ''demo'' 12 ?res) = Some (JBool True)"
    "field ''backend'' (loaded_response mb_env_example ''demo'' 12 ?res) = Some (JStr ''onnx'')"
    "errors_total (mb_stats ?s2) = 0"
    by (simp_all add: loaded_response_def jsonify_def field_def count_request_def mb_init_def)
  from h1 h2 h3 h6 mx c show ?thesis
    unfolding r by simp
qed

lemma load_model_max_result:
  assumes "load_model_max env p mid s = (Inr res, s1)"
  shows "map_of res ''model_id'' = Some (JStr mid) \<and> map_of res ''backend'' = Some (JStr ''max'')
         \<and> (\<exists>e. map_of (mb_models s1) mid = Some e \<and> me_backend e = ''max'')"
  using assms
  by (auto simp: load_model_max_def update_conv' split: prod.splits option.splits sum.splits)

lemma load_model_onnx_result:
  assumes "load_model_onnx env p mid s = (Inr res, s1)"
  shows "map_of res ''model_id'' = Some (JStr mid) \<and> map_of res ''backend'' = Some (JStr ''onnx'')
         \<and> (\<exists>e. map_of (mb_models s1) mid = Some e \<and> me_backend e = ''onnx'')"
  using assms
  by (auto simp: load_model_onnx_def update_conv' split: sum.splits if_splits)

lemma choose_backend_result:
  assumes "choose_backend env pref p mid s = (Inr res, s1)"
  shows "\<exists>b. map_of res ''model_id'' = Some (JStr mid) \<and> map_of res ''backend'' = Some (JStr b)
         \<and> (\<exists>e. map_of (mb_models s1) mid = Some e \<and> me_backend e = b)"
proof (cases "pref = ''max'' \<or> (pref = ''auto'' \<and> MAX_AVAILABLE env)")
  case False
  with assms have "load_model_onnx env p mid s = (Inr res, s1)"
    by (simp add: choose_backend_def)
  from load_model_onnx_result[OF this] show ?thesis by blast
next
  case True
  obtain mr s0 where mx: "load_model_max env p mid s = (mr, s0)"
    by (cases "load_model_max env p mid s") auto
  show ?thesis
  proof (cases mr)
    case (Inr r)
    with True mx assms have "load_model_max env p mid s = (Inr res, s1)"
      by (simp add: choose_backend_def)
    from load_model_max_result[OF this] show ?thesis by blast
  next
    case (Inl e)
    with True mx assms have "load_model_onnx env p mid s0 = (Inr res, s1)"
      by (simp add: choose_backend_def split: if_splits)
    from load_model_onnx_result[OF this] show ?thesis by blast
  qed
qed

lemma load_model_already:
  assumes "lr_model_path data = Some p" "p \<noteq> []"
    and "mid = (if truthy_str (lr_model_id data) then py_str (lr_model_id data) else basename p)"
    and "map_of (mb_models s) mid = Some entry"
  shows "load_model env data t s = (already_loaded_response mid (me_backend entry), count_request s)"
proof (cases "truthy_str (lr_model_id data)")
  case True
  with assms have m: "mid = py_str (lr_model_id data)"
    and a: "map_of (mb_models s) (py_str (lr_model_id data)) = Some entry" by simp_all
  from True a assms(1,2) show ?thesis
    unfolding m by (simp add: load_model_def Let_def)
next
  case False
  with assms have m: "mid = basename p"
    and a: "map_of (mb_models s) (basename p) = Some entry" by simp_all
  from False a assms(1,2) show ?thesis
    unfolding m by (simp add: load_model_def Let_def)
qed

lemma load_model_missing_file:
  assumes "lr_model_path data = Some p" "p \<noteq> []"
    and "mid = (if truthy_str (lr_model_id data) then py_str (lr_model_id data) else basename p)"
    and "map_of (mb_models s) mid = None" "\<not> path_exists env p"
  shows "load_model env data t s = (file_not_found_response p, count_request s)"
proof (cases "truthy_str (lr_model_id data)")
  case True
  with assms have a: "map_of (mb_models s) (py_str (lr_model_id data)) = None" by simp
  from True a assms(1,2,5) show ?thesis
    by (simp add: load_model_def Let_def)
next
  case False
  with assms have a: "map_of (mb_models s) (basename p) = None" by simp
  from False a assms(1,2,5) show ?thesis
    by (simp add: load_model_def Let_def)
qed

lemma field_loaded_response:
  "k \<notin> {''success'', ''message'', ''load_time_ms''} \<Longrightarrow>
   field k (loaded_response env mid t res) = map_of res k"
  by (simp add: loaded_response_def jsonify_def field_def)

lemma load_model_first_success:
  assumes "lr_model_path data = Some p" "p \<noteq> []"
    and "mid = (if truthy_str (lr_model_id data) then py_str (lr_model_id data) else basename p)"
    and "map_of (mb_models s) mid = None"
    and "load_model env data t s = (r1, s1)" "status r1 = 200"
  shows "\<exists>b e. field ''model_id'' r1 = Some (JStr mid) \<and> field ''backend'' r1 = Some (JStr b)
           \<and> map_of (mb_models s1) mid = Some e \<and> me_backend e = b"
proof (cases "path_exists env p")
  case False
  from load_model_missing_file[OF assms(1,2,3,4) False, of t]
  have "status (fst (load_model env data t s)) = 404"
    by (simp add: file_not_found_response_def jsonify_def)
  with assms(5,6) show ?thesis by simp
next
  case True
  let ?pref = "case lr_backend data of None \<Rightarrow> ''auto'' | Some b \<Rightarrow> b"
  obtain cr s0 where cb: "choose_backend env ?pref p mid (count_request s) = (cr, s0)"
    by (cases "choose_backend env ?pref p mid (count_request s)") auto
  from load_model_reaches_backend[OF assms(1,2,3,4) True, of t] cb assms(5)
  have lm: "(r1, s1) = (case cr of Inl e \<Rightarrow> internal_error env e s0
                         | Inr res \<Rightarrow> (loaded_response env mid t res, s0))"
    by (simp split: sum.splits)
  show ?thesis
  proof (cases cr)
    case (Inl e)
    with lm have "status r1 = 500"
      by (metis fst_conv status_internal_error sum.simps(5))
    with assms(6) show ?thesis by simp
  next
    case (Inr res)
    with lm have r: "r1 = loaded_response env mid t res" "s1 = s0" by simp_all
    from choose_backend_result[OF cb[unfolded Inr]] r show ?thesis
      by (auto simp: field_loaded_response)
  qed
qed

lemma load_example_first:
  "load_model mb_env_example load_request_example 12 (mb_init 0) =
     (\<lparr>status = 200, body =
       [(''success'', JBool True), (''message'', JStr ''Model demo loaded successfully''),
        (''load_time_ms'', JNum 12), (''model_id'', JStr ''demo''), (''backend'', JStr ''onnx''),
        (''input_names'', JArr [JStr ''input'']), (''output_names'', JArr [JStr ''output'']),
        (''input_shapes'', JArr [JArr [JNull, JNum 5]]),
        (''providers'', JArr [JStr ''CPUExecutionProvider''])]\<rparr>,
      mb_state_loaded)"
  by (simp add: load_model_def choose_backend_def mb_eval mb_state_loaded_def)


text \<open>
  Claim C1, as amended. A load request for a model id that is in the registry already
  (on HTTP: a request that carries a model path, not empty) runs no backend, leaves the
  registry as it is, and is answered with success by the short acknowledgement
  \<open>Model <id> already loaded\<close>: its result never depends on the environment's loaders.
  On the streaming
  transport the acknowledgement carries the message alone. On HTTP it carries the model id
  and the backend of the stored entry, and these two equal the \<open>model_id\<close> and \<open>backend\<close>
  that the first successful load of that id returned; the remaining metadata of the first
  load is not repeated.
\<close>

theorem second_load_is_acknowledged:
  "(truthy_str mid \<and> py_str mid \<in> set (keys (pb_models s)) \<longrightarrow>
      handle_load_model env i p mid s =
        (None,
         [\<lparr>resp_id = i, success = True,
           result = Some (JObj [(''message'', JStr (''Model '' @ py_str mid @ '' already loaded''))]),
           error = None\<rparr>],
         s))
   \<and> (lr_model_path data = Some q \<and> q \<noteq> []
        \<and> hid = (if truthy_str (lr_model_id data) then py_str (lr_model_id data) else basename q)
        \<and> map_of (mb_models hs) hid = Some entry \<longrightarrow>
        load_model henv data t hs = (already_loaded_response hid (me_backend entry), count_request hs)
        \<and> mb_models (count_request hs) = mb_models hs
        \<and> inference_session (count_request hs) = inference_session hs)
   \<and> (lr_model_path data = Some q \<and> q \<noteq> []
        \<and> hid = (if truthy_str (lr_model_id data) then py_str (lr_model_id data) else basename q)
        \<and> map_of (mb_models hs0) hid = None
        \<and> load_model henv data t0 hs0 = (r1, hs1) \<and> status r1 = 200 \<longrightarrow>
        (\<exists>b. field ''model_id'' r1 = Some (JStr hid) \<and> field ''backend'' r1 = Some (JStr b)
           \<and> load_model henv' data t hs1 = (already_loaded_response hid b, count_request hs1)))"
proof -
  have A: "truthy_str mid \<and> py_str mid \<in> set (keys (pb_models s)) \<longrightarrow>
      handle_load_model env i p mid s =
        (None,
         [\<lparr>resp_id = i, success = True,
           result = Some (JObj [(''message'', JStr (''Model '' @ py_str mid @ '' already loaded''))]),
           error = None\<rparr>],
         s)"
    by (simp add: handle_load_model_def send_response_def)
  have B: "lr_model_path data = Some q \<and> q \<noteq> []
        \<and> hid = (if truthy_str (lr_model_id data) then py_str (lr_model_id data) else basename q)
        \<and> map_of (mb_models hs) hid = Some entry \<longrightarrow>
        load_model henv data t hs = (already_loaded_response hid (me_backend entry), count_request hs)
        \<and> mb_models (count_request hs) = mb_models hs
        \<and> inference_session (count_request hs) = inference_session hs"
  proof
    assume a: "lr_model_path data = Some q \<and> q \<noteq> []
        \<and> hid = (if truthy_str (lr_model_id data) then py_str (lr_model_id data) else basename q)
        \<and> map_of (mb_models hs) hid = Some entry"
    then have "load_model henv data t hs =
        (already_loaded_response hid (me_backend entry), count_request hs)"
      using load_model_already[of data q hid hs entry henv t] by blast
    then show "load_model henv data t hs =
        (already_loaded_response hid (me_backend entry), count_request hs)
          \<and> mb_models (count_request hs) = mb_models hs
          \<and> inference_session (count_request hs) = inference_session hs"
      by (simp add: count_request_def)
  qed
  have C: "lr_model_path data = Some q \<and> q \<noteq> []
        \<and> hid = (if truthy_str (lr_model_id data) then py_str (lr_model_id data) else basename q)
        \<and> map_of (mb_models hs0) hid = None
        \<and> load_model henv data t0 hs0 = (r1, hs1) \<and> status r1 = 200 \<longrightarrow>
        (\<exists>b. field ''model_id'' r1 = Some (JStr hid) \<and> field ''backend'' r1 = Some (JStr b)
           \<and> load_model henv' data t hs1 = (already_loaded_response hid b, count_request hs1))"
  proof
    assume a: "lr_model_path data = Some q \<and> q \<noteq> []
          \<and> hid = (if truthy_str (lr_model_id data) then py_str (lr_model_id data) else basename q)
          \<and> map_of (mb_models hs0) hid = None
          \<and> load_model henv data t0 hs0 = (r1, hs1) \<and> status r1 = 200"
    then have p: "lr_model_path data = Some q" "q \<noteq> []"
      and h: "hid = (if truthy_str (lr_model_id data) then py_str (lr_model_id data)
                     else basename q)"
      and n: "map_of (mb_models hs0) hid = None"
      and l: "load_model henv data t0 hs0 = (r1, hs1)" "status r1 = 200"
      by blast+
    from load_model_first_success[OF p h n l]
    obtain b e where f: "field ''model_id'' r1 = Some (JStr hid)"
      "field ''backend'' r1 = Some (JStr b)"
      and m: "map_of (mb_models hs1) hid = Some e" "me_backend e = b"
      by blast
    from load_model_already[OF p h m(1), of henv' t] m(2)
    have "load_model henv' data t hs1 = (already_loaded_response hid b, count_request hs1)"
      by simp
    with f show "\<exists>b. field ''model_id'' r1 = Some (JStr hid) \<and> field ''backend'' r1 = Some (JStr b)
             \<and> load_model henv' data t hs1 = (already_loaded_response hid b, count_request hs1)"
      by blast
  qed
  from A B C show ?thesis by blast
qed


text \<open>
  The claim as stated fails: on both transports the second response differs from the
  first beyond the message. The streaming acknowledgement has no \<open>model_id\<close> and no
  \<open>model_type\<close>; the HTTP one has no load time, names, shapes or providers.
\<close>

theorem second_load_metadata_counterexample:
  "handle_load_model pb_env_example ''1'' (Some ''models/demo.h5'') (Some ''demo'') pb_init =
     (None,
      [\<lparr>resp_id = ''1'', success = True,
        result = Some (JObj [(''message'', JStr ''Model demo loaded successfully''),
                             (''model_id'', JStr ''demo''), (''model_type'', JStr ''keras'')]),
        error = None\<rparr>],
      pb_state_example)
   \<and> handle_load_model pb_env_example ''1'' (Some ''models/demo.h5'') (Some ''demo'')
        pb_state_example =
     (None,
      [\<lparr>resp_id = ''1'', success = True,
        result = Some (JObj [(''message'', JStr ''Model demo already loaded'')]),
        error = None\<rparr>],
      pb_state_example)
   \<and> body (fst (load_model mb_env_example load_request_example 12 (mb_init 0))) =
       [(''success'', JBool True), (''message'', JStr ''Model demo loaded successfully''),
        (''load_time_ms'', JNum 12), (''model_id'', JStr ''demo''), (''backend'', JStr ''onnx''),
        (''input_names'', JArr [JStr ''input'']), (''output_names'', JArr [JStr ''output'']),
        (''input_shapes'', JArr [JArr [JNull, JNum 5]]),
        (''providers'', JArr [JStr ''CPUExecutionProvider''])]
   \<and> body (fst (load_model mb_env_example load_request_example 12
                  (snd (load_model mb_env_example load_request_example 12 (mb_init 0))))) =
       [(''success'', JBool True), (''message'', JStr ''Model demo already loaded''),
        (''model_id'', JStr ''demo''), (''backend'', JStr ''onnx'')]"
proof -
  have a: "handle_load_model pb_env_example ''1'' (Some ''models/demo.h5'') (Some ''demo'') pb_init =
     (None,
      [\<lparr>resp_id = ''1'', success = True,
        result = Some (JObj [(''message'', JStr ''Model demo loaded successfully''),
                             (''model_id'', JStr ''demo''), (''model_type'', JStr ''keras'')]),
        error = None\<rparr>],
      pb_state_example)"
    by (simp add: pb_eval)
  have b: "handle_load_model pb_env_example ''1'' (Some ''models/demo.h5'') (Some ''demo'')
        pb_state_example =
     (None,
      [\<lparr>resp_id = ''1'', success = True,
        result = Some (JObj [(''message'', JStr ''Model demo already loaded'')]),
        error = None\<rparr>],
      pb_state_example)"
    by (simp add: pb_eval)
  have d: "body (fst (load_model mb_env_example load_request_example 12 mb_state_loaded)) =
       [(''success'', JBool True), (''message'', JStr ''Model demo already loaded''),
        (''model_id'', JStr ''demo''), (''backend'', JStr ''onnx'')]"
    by (simp add: load_model_def already_loaded_response_def mb_eval mb_state_loaded_def)
  from a b d show ?thesis unfolding load_example_first by simp
qed


theorem second_load_is_acknowledged_witness:
  "truthy_str (Some ''demo'') \<and> py_str (Some ''demo'') \<in> set (keys (pb_models pb_state_example))
   \<and> handle_load_model pb_env_example ''2'' (Some ''models/demo.h5'') (Some ''demo'')
        pb_state_example =
       (None,
        [\<lparr>resp_id = ''2'', success = True,
          result = Some (JObj [(''message'', JStr ''Model demo already loaded'')]),
          error = None\<rparr>],
        pb_state_example)
   \<and> map_of (mb_models mb_state_example) ''demo'' =
       Some \<lparr>me_model = 3, me_backend = ''onnx'', me_path = ''models/demo/model.onnx''\<rparr>
   \<and> load_model mb_env_example load_request_example 5 mb_state_example =
       (already_loaded_response ''demo'' ''onnx'', count_request mb_state_example)
   \<and> map_of (mb_models (mb_init 0)) ''demo'' = None
   \<and> status (fst (load_model mb_env_example load_request_example 12 (mb_init 0))) = 200
   \<and> load_model mb_env_example load_request_example 5
        (snd (load_model mb_env_example load_request_example 12 (mb_init 0))) =
       (already_loaded_response ''demo'' ''onnx'', count_request mb_state_loaded)"
proof -
  let ?q = "''models/demo/model.onnx''"
  let ?r1 = "fst (load_model mb_env_example load_request_example 12 (mb_init 0))"
  note t = second_load_is_acknowledged[where mid = "Some ''demo''" and s = pb_state_example
      and env = pb_env_example and i = "''2''" and p = "Some ''models/demo.h5''"
      and data = load_request_example and q = ?q and hid = "''demo''"
      and hs = mb_state_example
      and entry = "\<lparr>me_model = 3, me_backend = ''onnx'', me_path = ?q\<rparr>"
      and henv = mb_env_example and t = 5 and ?hs0.0 = "mb_init 0" and ?t0.0 = 12
      and ?r1.0 = ?r1 and ?hs1.0 = mb_state_loaded and henv' = mb_env_example]
  have h1: "truthy_str (Some ''demo'') \<and> py_str (Some ''demo'') \<in> set (keys (pb_models pb_state_example))"
    by (simp add: pb_state_example_def keys_def)
  have h2: "lr_model_path load_request_example = Some ?q \<and> ?q \<noteq> []
      \<and> ''demo'' = (if truthy_str (lr_model_id load_request_example)
                      then py_str (lr_model_id load_request_example) else basename ?q)"
    by (simp add: load_request_example_def)
  have h3: "map_of (mb_models mb_state_example) ''demo'' =
       Some \<lparr>me_model = 3, me_backend = ''onnx'', me_path = ?q\<rparr>"
    by (simp add: mb_state_example_def)
  have h4: "map_of (mb_models (mb_init 0)) ''demo'' = None"
    by (simp add: mb_init_def)
  have h5: "load_model mb_env_example load_request_example 12 (mb_init 0) = (?r1, mb_state_loaded)"
    "status ?r1 = 200" "field ''backend'' ?r1 = Some (JStr ''onnx'')"
    by (simp_all add: load_example_first field_def)
  from t h1 have c1: "handle_load_model pb_env_example ''2'' (Some ''models/demo.h5'') (Some ''demo'')
        pb_state_example =
       (None,
        [\<lparr>resp_id = ''2'', success = True,
          result = Some (JObj [(''message'', JStr ''Model demo already loaded'')]),
          error = None\<rparr>],
        pb_state_example)"
    by simp
  from t h2 h3 have c2: "load_model mb_env_example load_request_example 5 mb_state_example =
       (already_loaded_response ''demo'' ''onnx'', count_request mb_state_example)"
    by simp
  from t h2 h4 h5(1,2) have "\<exists>b. field ''backend'' ?r1 = Some (JStr b)
           \<and> load_model mb_env_example load_request_example 5 mb_state_loaded =
               (already_loaded_response ''demo'' b, count_request mb_state_loaded)"
    by blast
  with h5(3) have c3: "load_model mb_env_example load_request_example 5 mb_state_loaded =
               (already_loaded_response ''demo'' ''onnx'', count_request mb_state_loaded)"
    by auto
  from h1 c1 h3 c2 h4 h5(2) c3 show ?thesis
    by (simp add: load_example_first)
qed

text \<open>
  Claim C7, as amended. A load request whose path does not exist on disk and whose model
  id is not loaded: on the HTTP transport (for a path that is not the empty string, which
  validation turns away) it is answered 404 with \<open>success = False\<close> and
  the error \<open>Model file not found: <path>\<close>, which contains the path, and the registry is
  as it was. The streaming transport has no existence check: there the request is answered
  \<open>success = False\<close> and the state is as it was because the extension has no loader (the
  error is \<open>Unsupported model format: <ext>\<close>) or because the loader raises on the
  missing file (the error is the text of the loader's exception).
\<close>

theorem missing_file_load_fails:
  "(lr_model_path data = Some q \<and> q \<noteq> []
      \<and> hid = (if truthy_str (lr_model_id data) then py_str (lr_model_id data) else basename q)
      \<and> map_of (mb_models hs) hid = None \<and> \<not> path_exists henv q \<longrightarrow>
      load_model henv data t hs =
        (\<lparr>status = 404,
          body = [(''success'', JBool False),
                  (''error'', JStr (''Model file not found: '' @ q))]\<rparr>,
         count_request hs)
      \<and> sublist q (''Model file not found: '' @ q)
      \<and> mb_models (count_request hs) = mb_models hs)
   \<and> (sid = (if truthy_str mid then py_str mid else basename p)
       \<and> sid \<notin> set (keys (pb_models s)) \<and> loader_raises env p \<longrightarrow>
       handle_load_model env i (Some p) mid s =
         (None,
          [\<lparr>resp_id = i, success = False, result = None,
            error = Some (load_failure_text env p)\<rparr>],
          s))"
proof -
  have A: "lr_model_path data = Some q \<and> q \<noteq> []
      \<and> hid = (if truthy_str (lr_model_id data) then py_str (lr_model_id data) else basename q)
      \<and> map_of (mb_models hs) hid = None \<and> \<not> path_exists henv q \<longrightarrow>
      load_model henv data t hs =
        (\<lparr>status = 404,
          body = [(''success'', JBool False),
                  (''error'', JStr (''Model file not found: '' @ q))]\<rparr>,
         count_request hs)
      \<and> sublist q (''Model file not found: '' @ q)
      \<and> mb_models (count_request hs) = mb_models hs"
  proof
    assume a: "lr_model_path data = Some q \<and> q \<noteq> []
      \<and> hid = (if truthy_str (lr_model_id data) then py_str (lr_model_id data) else basename q)
      \<and> map_of (mb_models hs) hid = None \<and> \<not> path_exists henv q"
    then have "load_model henv data t hs = (file_not_found_response q, count_request hs)"
      using load_model_missing_file[of data q hid hs henv t] by blast
    moreover have "sublist q (''Model file not found: '' @ q)"
      by (rule sublist_append_leftI)
    ultimately show "load_model henv data t hs =
        (\<lparr>status = 404,
          body = [(''success'', JBool False),
                  (''error'', JStr (''Model file not found: '' @ q))]\<rparr>,
         count_request hs)
      \<and> sublist q (''Model file not found: '' @ q)
      \<and> mb_models (count_request hs) = mb_models hs"
      by (simp add: file_not_found_response_def jsonify_def)
  qed
  have B: "sid = (if truthy_str mid then py_str mid else basename p)
       \<and> sid \<notin> set (keys (pb_models s)) \<and> loader_raises env p \<longrightarrow>
       handle_load_model env i (Some p) mid s =
         (None,
          [\<lparr>resp_id = i, success = False, result = None,
            error = Some (load_failure_text env p)\<rparr>],
          s)"
  proof
    assume a: "sid = (if truthy_str mid then py_str mid else basename p)
       \<and> sid \<notin> set (keys (pb_models s)) \<and> loader_raises env p"
    show "handle_load_model env i (Some p) mid s =
         (None,
          [\<lparr>resp_id = i, success = False, result = None,
            error = Some (load_failure_text env p)\<rparr>],
          s)"
    proof (cases "truthy_str mid")
      case True
      with a have "py_str mid \<notin> set (keys (pb_models s))" "loader_raises env p" by auto
      with True show ?thesis
        by (simp add: handle_load_model_def Let_def loader_raises_def load_failure_text_def
              send_response_def split: option.splits sum.splits)
    next
      case False
      with a have "basename p \<notin> set (keys (pb_models s))" "loader_raises env p" by auto
      with False show ?thesis
        by (simp add: handle_load_model_def Let_def loader_raises_def load_failure_text_def
              send_response_def split: option.splits sum.splits)
    qed
  qed
  from A B show ?thesis by blast
qed


text \<open>
  The claim as stated fails on the streaming transport: the extension is looked at before
  any file is opened, and the error for a path with an unknown extension names the
  extension only.
\<close>

theorem missing_file_streaming_counterexample:
  "loader_raises pb_env_example ''models/missing.bin''
   \<and> handle_load_model pb_env_example ''1'' (Some ''models/missing.bin'') None pb_init =
       (None,
        [\<lparr>resp_id = ''1'', success = False, result = None,
          error = Some ''Unsupported model format: .bin''\<rparr>],
        pb_init)
   \<and> \<not> sublist ''models/missing.bin'' ''Unsupported model format: .bin''"
proof -
  have "\<not> sublist ''models/missing.bin'' ''Unsupported model format: .bin''"
    by code_simp
  then show ?thesis
    by (simp add: pb_eval loader_raises_def)
qed



theorem missing_file_load_fails_witness:
  "\<not> path_exists mb_env_example ''models/none.onnx''
   \<and> map_of (mb_models (mb_init 0)) ''ghost'' = None
   \<and> load_model mb_env_example
         \<lparr>lr_model_path = Some ''models/none.onnx'', lr_model_id = Some ''ghost'',
          lr_backend = None\<rparr> 3 (mb_init 0) =
       (\<lparr>status = 404,
         body = [(''success'', JBool False),
                 (''error'', JStr ''Model file not found: models/none.onnx'')]\<rparr>,
        count_request (mb_init 0))
   \<and> loader_raises pb_env_example ''models/missing.pkl''
   \<and> ''missing.pkl'' \<notin> set (keys (pb_models pb_init))
   \<and> handle_load_model pb_env_example ''1'' (Some ''models/missing.pkl'') None pb_init =
       (None,
        [\<lparr>resp_id = ''1'', success = False, result = None,
          error = Some ''No such file or directory: models/missing.pkl''\<rparr>],
        pb_init)"
proof -
  let ?d = "\<lparr>lr_model_path = Some ''models/none.onnx'', lr_model_id = Some ''ghost'',
          lr_backend = None\<rparr>"
  note t = missing_file_load_fails[where data = ?d and q = "''models/none.onnx''"
      and hid = "''ghost''" and hs = "mb_init 0" and henv = mb_env_example and t = 3
      and sid = "''missing.pkl''" and mid = None and p = "''models/missing.pkl''"
      and s = pb_init and env = pb_env_example and i = "''1''"]
  have h1: "lr_model_path ?d = Some ''models/none.onnx'' \<and> ''models/none.onnx'' \<noteq> []
      \<and> ''ghost'' = (if truthy_str (lr_model_id ?d) then py_str (lr_model_id ?d)
                       else basename ''models/none.onnx'')"
    by simp
  have h2: "map_of (mb_models (mb_init 0)) ''ghost'' = None"
    "\<not> path_exists mb_env_example ''models/none.onnx''"
    by (simp_all add: mb_init_def mb_env_example_def)
  have h3: "''missing.pkl'' = (if truthy_str None then py_str None
                                else basename ''models/missing.pkl'')"
    by (simp add: basename_def)
  have h4: "''missing.pkl'' \<notin> set (keys (pb_models pb_init))"
    by (simp add: pb_init_def keys_def)
  have h5: "loader_raises pb_env_example ''models/missing.pkl''"
    by (simp add: loader_raises_def pb_eval load_sklearn_model_def)
  have f: "load_failure_text pb_env_example ''models/missing.pkl'' =
      ''No such file or directory: models/missing.pkl''"
    by (simp add: load_failure_text_def pb_eval load_sklearn_model_def)
  from t h1 h2 have c1: "load_model mb_env_example ?d 3 (mb_init 0) =
       (\<lparr>status = 404,
         body = [(''success'', JBool False),
                 (''error'', JStr (''Model file not found: '' @ ''models/none.onnx''))]\<rparr>,
        count_request (mb_init 0))"
    by blast
  from t h3 h4 h5 have c2: "handle_load_model pb_env_example ''1'' (Some ''models/missing.pkl'')
      None pb_init =
       (None,
        [\<lparr>resp_id = ''1'', success = False, result = None,
          error = Some (load_failure_text pb_env_example ''models/missing.pkl'')\<rparr>],
        pb_init)"
    by blast
  from h2 h4 h5 c1 c2 show ?thesis
    by (simp add: f)
qed

section \<open>Arrays and the batch dimension\<close>

lemma length_concat_same:
  "\<forall>b \<in> set bs. length (snd b) = n \<Longrightarrow> length (concat (map snd bs)) = length bs * n"
  by (induction bs) auto

lemma np_array_of_size:
  "np_array_of scalar v = Inr (sh, es) \<Longrightarrow> length es = prod_list sh"
proof (induction scalar v arbitrary: sh es rule: np_array_of.induct)
  case (1 scalar xs)
  let ?rs = "map (np_array_of scalar) xs"
  from "1.prems" have f: "filter isl ?rs = []"
    by (auto simp: Let_def split: list.splits)
  then have allr: "\<forall>r \<in> set ?rs. \<not> isl r"
    by (simp add: filter_empty_conv)
  show ?case
  proof (cases "map projr ?rs")
    case Nil
    with "1.prems" f show ?thesis by (auto simp: Let_def)
  next
    case (Cons a as)
    obtain sh0 es0 where a: "a = (sh0, es0)" by (cases a)
    from "1.prems" f Cons a have same: "list_all (\<lambda>b. fst b = sh0) as"
      and res: "sh = Suc (length as) # sh0" "es = concat (map snd ((sh0, es0) # as))"
      by (auto simp: Let_def split: if_splits)
    have each: "\<forall>b \<in> set (a # as). length (snd b) = prod_list (fst b)"
    proof
      fix b assume "b \<in> set (a # as)"
      then have "b \<in> set (map projr ?rs)" using Cons by simp
      then obtain x where x: "x \<in> set xs" "b = projr (np_array_of scalar x)" by auto
      with allr have "\<not> isl (np_array_of scalar x)" by simp
      then have "np_array_of scalar x = Inr b" using x(2) by (cases "np_array_of scalar x") auto
      then have "np_array_of scalar x = Inr (fst b, snd b)" by simp
      from "1.IH"[OF x(1) this] show "length (snd b) = prod_list (fst b)" .
    qed
    have "\<forall>b \<in> set (a # as). length (snd b) = prod_list sh0"
      using each same a by (auto simp: list_all_iff)
    then have "length (concat (map snd (a # as))) = length (a # as) * prod_list sh0"
      by (rule length_concat_same)
    with res a show ?thesis by simp
  qed
qed (auto split: sum.splits)

lemma np_array_size:
  "np_array other v = Inr a \<Longrightarrow> length (elems a) = prod_list (shape a)"
  by (auto simp: np_array_def dest: np_array_of_size split: sum.splits prod.splits)

text \<open>
  Claim C6, as amended. An input tensor with exactly one dimension, of \<open>n\<close> elements, is
  reshaped to \<open>(1, n)\<close> before the backend is invoked, and a tensor with any other number
  of dimensions is passed on as it is, whatever input shape the model declares: this is
  the tensor that the Keras and TFLite calls of the streaming bridge and the ONNX Runtime
  and MAX calls of the HTTP bridge receive.
\<close>

theorem batch_dimension_for_one_dimensional_input:
  "(np_array other v = Inr a \<and> shape a = [n] \<longrightarrow>
      ensure_batch a = \<lparr>shape = [1, n], elems = elems a\<rparr>)
   \<and> (length (shape a) \<noteq> 1 \<longrightarrow> ensure_batch a = a)
   \<and> (np_array (pb_np_other penv) v = Inr b \<longrightarrow>
        run_model penv h ''keras'' v =
          (case keras_predict penv h (ensure_batch b) of
             Inl e \<Rightarrow> Inl e
           | Inr prediction \<Rightarrow> Inr (Some (tolist prediction)))
        \<and> run_model penv h ''tflite'' v =
          (case tflite_invoke penv h (ensure_batch b) of
             Inl e \<Rightarrow> Inl e
           | Inr prediction \<Rightarrow> Inr (Some (tolist prediction))))
   \<and> (map_of (mb_models s) k = Some info \<and> np_array (mb_np_other env) (JArr xs) = Inr c \<longrightarrow>
        predict_onnx env k (Raw (JArr xs)) s =
          (case ort_run env (me_model info) (ensure_batch c) of
             Inl e \<Rightarrow> Inl e
           | Inr outputs \<Rightarrow>
               (case outputs of
                  [out] \<Rightarrow> Inr (tolist out)
                | _ \<Rightarrow> Inr (JArr (map tolist outputs))))
        \<and> predict_max env k (Raw (JArr xs)) s =
          (case max_execute env (me_model info) (ensure_batch c) of
             Inl e \<Rightarrow> Inl e
           | Inr (OutDict kvs) \<Rightarrow>
               Inr (JObj (map (\<lambda>(k, v). (k, case v of Inl a \<Rightarrow> tolist a | Inr j \<Rightarrow> j)) kvs))
           | Inr (OutArray a) \<Rightarrow> Inr (tolist a)
           | Inr (OutOther j) \<Rightarrow> Inr j))"
proof -
  have A: "np_array other v = Inr a \<and> shape a = [n] \<longrightarrow>
      ensure_batch a = \<lparr>shape = [1, n], elems = elems a\<rparr>"
  proof
    assume h: "np_array other v = Inr a \<and> shape a = [n]"
    with np_array_size[of other v a] have "length (elems a) = n" by simp
    with h show "ensure_batch a = \<lparr>shape = [1, n], elems = elems a\<rparr>"
      by (simp add: ensure_batch_def reshape_1_m1_def)
  qed
  have B: "length (shape a) \<noteq> 1 \<longrightarrow> ensure_batch a = a"
    by (simp add: ensure_batch_def)
  have C: "np_array (pb_np_other penv) v = Inr b \<longrightarrow>
        run_model penv h ''keras'' v =
          (case keras_predict penv h (ensure_batch b) of
             Inl e \<Rightarrow> Inl e
           | Inr prediction \<Rightarrow> Inr (Some (tolist prediction)))
        \<and> run_model penv h ''tflite'' v =
          (case tflite_invoke penv h (ensure_batch b) of
             Inl e \<Rightarrow> Inl e
           | Inr prediction \<Rightarrow> Inr (Some (tolist prediction)))"
    by (simp add: run_model_def Let_def)
  have D: "map_of (mb_models s) k = Some info \<and> np_array (mb_np_other env) (JArr xs) = Inr c \<longrightarrow>
        predict_onnx env k (Raw (JArr xs)) s =
          (case ort_run env (me_model info) (ensure_batch c) of
             Inl e \<Rightarrow> Inl e
           | Inr outputs \<Rightarrow>
               (case outputs of
                  [out] \<Rightarrow> Inr (tolist out)
                | _ \<Rightarrow> Inr (JArr (map tolist outputs))))
        \<and> predict_max env k (Raw (JArr xs)) s =
          (case max_execute env (me_model info) (ensure_batch c) of
             Inl e \<Rightarrow> Inl e
           | Inr (OutDict kvs) \<Rightarrow>
               Inr (JObj (map (\<lambda>(k, v). (k, case v of Inl a \<Rightarrow> tolist a | Inr j \<Rightarrow> j)) kvs))
           | Inr (OutArray a) \<Rightarrow> Inr (tolist a)
           | Inr (OutOther j) \<Rightarrow> Inr j)"
    by (simp add: predict_onnx_def predict_max_def prepare_input_def)
  from A B C D show ?thesis by blast
qed


text \<open>
  The claim as stated fails: the predict paths never read the model's declared input
  shape. A two-dimensional input for a model that declares three dimensions reaches the
  backend with two dimensions.
\<close>

theorem batch_dimension_counterexample:
  "np_array (pb_np_other pb_env_example) matrix_example =
     Inr \<lparr>shape = [2, 2], elems = [Some 1, Some 2, Some 3, Some 4]\<rparr>
   \<and> length [2, 2 :: nat] + 1 = length [1, 2, 2 :: nat]
   \<and> ensure_batch \<lparr>shape = [2, 2], elems = [Some 1, Some 2, Some 3, Some 4]\<rparr> =
       \<lparr>shape = [2, 2], elems = [Some 1, Some 2, Some 3, Some 4]\<rparr>
   \<and> run_model (pb_env_example\<lparr>keras_predict := (\<lambda>h a. Inr a)\<rparr>) 1 ''keras'' matrix_example =
       Inr (Some (JArr [JArr [JNum 1, JNum 2], JArr [JNum 3, JNum 4]]))
   \<and> prepare_input mb_env_example (Raw matrix_example) =
       Inr \<lparr>shape = [2, 2], elems = [Some 1, Some 2, Some 3, Some 4]\<rparr>"
  by (simp add: matrix_example_def np_array_def run_model_def prepare_input_def ensure_batch_def
        pb_env_example_def mb_env_example_def Let_def tolist_def upt_rec)


theorem batch_dimension_for_one_dimensional_input_witness:
  "np_array (pb_np_other pb_env_example) (JArr [JNum 1, JNum 2, JNum 3]) =
     Inr \<lparr>shape = [3], elems = [Some 1, Some 2, Some 3]\<rparr>
   \<and> ensure_batch \<lparr>shape = [3], elems = [Some 1, Some 2, Some 3]\<rparr> =
       \<lparr>shape = [1, 3], elems = [Some 1, Some 2, Some 3]\<rparr>
   \<and> length (shape \<lparr>shape = [2, 2], elems = [Some 1, Some 2, Some 3, Some (4::real)]\<rparr>) \<noteq> 1
   \<and> run_model (pb_env_example\<lparr>keras_predict := (\<lambda>h a. Inr a)\<rparr>) 1 ''keras''
         (JArr [JNum 1, JNum 2, JNum 3]) =
       Inr (Some (JArr [JArr [JNum 1, JNum 2, JNum 3]]))
   \<and> map_of (mb_models mb_state_example) ''demo'' =
       Some \<lparr>me_model = 3, me_backend = ''onnx'', me_path = ''models/demo/model.onnx''\<rparr>
   \<and> predict_onnx (mb_env_example\<lparr>ort_run := (\<lambda>h a. Inr [a])\<rparr>) ''demo''
         (Raw (JArr [JNum 1, JNum 2, JNum 3])) mb_state_example =
       Inr (JArr [JArr [JNum 1, JNum 2, JNum 3]])"
proof -
  let ?v = "JArr [JNum 1, JNum 2, JNum 3]"
  let ?a = "\<lparr>shape = [3], elems = [Some 1, Some 2, Some (3::real)]\<rparr>"
  let ?penv = "pb_env_example\<lparr>keras_predict := (\<lambda>h a. Inr a)\<rparr>"
  let ?env = "mb_env_example\<lparr>ort_run := (\<lambda>h a. Inr [a])\<rparr>"
  let ?info = "\<lparr>me_model = 3, me_backend = ''onnx'', me_path = ''models/demo/model.onnx''\<rparr>"
  note t = batch_dimension_for_one_dimensional_input[where other = "pb_np_other pb_env_example"
      and v = ?v and a = ?a and n = 3 and penv = ?penv and b = ?a and h = 1
      and s = mb_state_example and k = "''demo''" and info = ?info and env = ?env
      and xs = "[JNum 1, JNum 2, JNum 3]" and c = ?a]
  have h1: "np_array (pb_np_other pb_env_example) ?v = Inr ?a"
    "np_array (pb_np_other ?penv) ?v = Inr ?a" "np_array (mb_np_other ?env) ?v = Inr ?a"
    by (simp_all add: np_array_def)
  have h2: "map_of (mb_models mb_state_example) ''demo'' = Some ?info"
    by (simp add: mb_state_example_def)
  have h3: "length (shape \<lparr>shape = [2, 2], elems = [Some 1, Some 2, Some 3, Some (4::real)]\<rparr>) \<noteq> 1"
    by simp
  from t h1 have c1: "ensure_batch ?a = \<lparr>shape = [1, 3], elems = [Some 1, Some 2, Some 3]\<rparr>"
    by simp
  from t h1 have "run_model ?penv 1 ''keras'' ?v =
      (case keras_predict ?penv 1 (ensure_batch ?a) of
             Inl e \<Rightarrow> Inl e
           | Inr prediction \<Rightarrow> Inr (Some (tolist prediction)))"
    by blast
  then have c2: "run_model ?penv 1 ''keras'' ?v = Inr (Some (JArr [JArr [JNum 1, JNum 2, JNum 3]]))"
    by (simp add: c1 tolist_def pb_env_example_def upt_rec)
  from t h1 h2 have "predict_onnx ?env ''demo'' (Raw ?v) mb_state_example =
          (case ort_run ?env (me_model ?info) (ensure_batch ?a) of
             Inl e \<Rightarrow> Inl e
           | Inr outputs \<Rightarrow>
               (case outputs of
                  [out] \<Rightarrow> Inr (tolist out)
                | _ \<Rightarrow> Inr (JArr (map tolist outputs))))"
    by blast
  then have c3: "predict_onnx ?env ''demo'' (Raw ?v) mb_state_example =
      Inr (JArr [JArr [JNum 1, JNum 2, JNum 3]])"
    by (simp add: c1 tolist_def mb_env_example_def upt_rec)
  from h1(1) c1 h3 c2 h2 c3 show ?thesis by blast
qed

section \<open>The statistics of the HTTP bridge\<close>

lemma counted_simps [simp]:
  "inference_total (mb_stats (count_inference (count_request s))) = inference_total (mb_stats s) + 1"
  "avg_inference_time_ms (mb_stats (count_inference (count_request s))) =
     avg_inference_time_ms (mb_stats s)"
  by (simp_all add: count_inference_def count_request_def)

lemma internal_error_stats [simp]:
  "inference_total (mb_stats (snd (internal_error env e s))) = inference_total (mb_stats s)"
  "avg_inference_time_ms (mb_stats (snd (internal_error env e s))) =
     avg_inference_time_ms (mb_stats s)"
  by (simp_all add: internal_error_def count_error_def)

lemma status_jsonify [simp]: "status (jsonify c b) = c"
  by (simp add: jsonify_def)

text \<open>
  \<open>predict\<close> always raises \<open>inference_total\<close> by one; it answers 200 only after it has
  folded the elapsed time into the running mean, and leaves the mean alone otherwise.
\<close>

lemma predict_outcome:
  "inference_total (mb_stats (snd (predict env data t s))) = inference_total (mb_stats s) + 1
   \<and> (if status (fst (predict env data t s)) = 200
      then inference_total (mb_stats s) + 1 \<noteq> 0
           \<and> avg_inference_time_ms (mb_stats (snd (predict env data t s))) =
               (avg_inference_time_ms (mb_stats s) * real_of_int (inference_total (mb_stats s)) + t)
                 / real_of_int (inference_total (mb_stats s) + 1)
      else avg_inference_time_ms (mb_stats (snd (predict env data t s))) =
             avg_inference_time_ms (mb_stats s))"
proof -
  let ?s0 = "count_inference (count_request s)"
  let ?k = "py_str (pr_model_id data)"
  consider (noid) "\<not> truthy_str (pr_model_id data)"
    | (noinput) "truthy_str (pr_model_id data)" "pr_input_data data = JNull"
    | (absent) "truthy_str (pr_model_id data)" "pr_input_data data \<noteq> JNull"
        "map_of (mb_models ?s0) ?k = None"
    | (present) entry where "truthy_str (pr_model_id data)" "pr_input_data data \<noteq> JNull"
        "map_of (mb_models ?s0) ?k = Some entry"
    by (cases "map_of (mb_models ?s0) ?k") auto
  then show ?thesis
  proof cases
    case noid
    then show ?thesis by (simp add: predict_def Let_def)
  next
    case noinput
    then show ?thesis by (simp add: predict_def Let_def)
  next
    case absent
    then show ?thesis by (simp add: predict_def Let_def)
  next
    case present
    let ?r = "if me_backend entry = ''max''
              then predict_max env ?k (Raw (pr_input_data data)) ?s0
              else predict_onnx env ?k (Raw (pr_input_data data)) ?s0"
    show ?thesis
    proof (cases ?r)
      case (Inl e)
      with present have "predict env data t s = internal_error env e ?s0"
        by (simp add: predict_def Let_def)
      then show ?thesis by simp
    next
      case (Inr res)
      show ?thesis
      proof (cases "inference_total (mb_stats s) + 1 = 0")
        case True
        with Inr present have "predict env data t s =
            internal_error env (PyExc ''ZeroDivisionError'' ''float division by zero'') ?s0"
          by (simp add: predict_def Let_def)
        then show ?thesis by simp
      next
        case False
        with Inr present have "predict env data t s =
          (jsonify 200
             [(''success'', JBool True), (''prediction'', res),
              (''inference_time_ms'', JNum (round2 env t)),
              (''backend'', JStr (me_backend entry))],
           ?s0\<lparr>mb_stats := (mb_stats ?s0)\<lparr>avg_inference_time_ms :=
              (avg_inference_time_ms (mb_stats ?s0)
                 * real_of_int (inference_total (mb_stats ?s0) - 1) + t)
               / real_of_int (inference_total (mb_stats ?s0))\<rparr>\<rparr>)"
          by (simp add: predict_def Let_def)
        with False show ?thesis by simp
      qed
    qed
  qed
qed

lemma batch_error_stats [simp]:
  "inference_total (mb_stats (snd (batch_error e s))) = inference_total (mb_stats s)"
  "avg_inference_time_ms (mb_stats (snd (batch_error e s))) = avg_inference_time_ms (mb_stats s)"
  "status (fst (batch_error e s)) = 500"
  by (simp_all add: batch_error_def count_error_def)

lemma count_request_stats [simp]:
  "inference_total (mb_stats (count_request s)) = inference_total (mb_stats s)"
  "avg_inference_time_ms (mb_stats (count_request s)) = avg_inference_time_ms (mb_stats s)"
  by (simp_all add: count_request_def)

text \<open>
  \<open>batch_predict\<close> never writes the running mean; it adds the number of inputs to
  \<open>inference_total\<close> when it answers 200 and leaves the counter alone otherwise.
\<close>

lemma batch_predict_outcome:
  "avg_inference_time_ms (mb_stats (snd (batch_predict env data t s))) =
     avg_inference_time_ms (mb_stats s)
   \<and> (if status (fst (batch_predict env data t s)) = 200
      then \<exists>len. py_len (br_inputs data) = Inr len
             \<and> inference_total (mb_stats (snd (batch_predict env data t s))) =
                 inference_total (mb_stats s) + len
      else inference_total (mb_stats (snd (batch_predict env data t s))) =
             inference_total (mb_stats s))"
proof -
  let ?s0 = "count_request s"
  let ?k = "py_str (br_model_id data)"
  consider (invalid) "\<not> truthy_str (br_model_id data) \<or> \<not> truthy (br_inputs data)"
    | (absent) "truthy_str (br_model_id data)" "truthy (br_inputs data)"
        "map_of (mb_models ?s0) ?k = None"
    | (present) entry where "truthy_str (br_model_id data)" "truthy (br_inputs data)"
        "map_of (mb_models ?s0) ?k = Some entry"
    by (cases "map_of (mb_models ?s0) ?k") auto
  then show ?thesis
  proof cases
    case invalid
    then show ?thesis by (auto simp: batch_predict_def Let_def)
  next
    case absent
    then show ?thesis by (simp add: batch_predict_def Let_def)
  next
    case present
    show ?thesis
    proof (cases "np_array (mb_np_other env) (br_inputs data)")
      case (Inl e)
      with present have "batch_predict env data t s = batch_error e ?s0"
        by (simp add: batch_predict_def Let_def)
      then show ?thesis by simp
    next
      case (Inr batch_input)
      let ?r = "if me_backend entry = ''max''
              then predict_max env ?k (Tensor batch_input) ?s0
              else predict_onnx env ?k (Tensor batch_input) ?s0"
      show ?thesis
      proof (cases ?r)
        case e: (Inl e)
        with Inr present have "batch_predict env data t s = batch_error e ?s0"
          by (simp add: batch_predict_def Let_def)
        then show ?thesis by simp
      next
        case r: (Inr res)
        show ?thesis
        proof (cases "py_len (br_inputs data)")
          case le: (Inl e)
          with r Inr present have "batch_predict env data t s = batch_error e ?s0"
            by (simp add: batch_predict_def Let_def)
          then show ?thesis by simp
        next
          case l: (Inr len)
          with r Inr present have "snd (batch_predict env data t s) =
              ?s0\<lparr>mb_stats := (mb_stats ?s0)\<lparr>inference_total :=
                     inference_total (mb_stats ?s0) + len\<rparr>\<rparr>"
            "status (fst (batch_predict env data t s)) = 200"
            by (simp_all add: batch_predict_def Let_def)
          with l show ?thesis by simp
        qed
      qed
    qed
  qed
qed

text \<open>The definitions that evaluate the predict endpoints on an example.\<close>

lemmas predict_eval = predict_def batch_predict_def predict_onnx_def prepare_input_def
  np_array_def ensure_batch_def reshape_1_m1_def tolist_def upt_rec internal_error_def
  batch_error_def model_not_loaded_def predict_request_example_def batch_request_example_def

lemma predict_example_absent:
  "predict mb_env_example (predict_request_example ''ghost'') 4 mb_state_example =
     (\<lparr>status = 404,
       body = [(''success'', JBool False), (''error'', JStr ''Model ghost not loaded'')]\<rparr>,
      mb_state_example\<lparr>mb_stats := \<lparr>requests_total = 3, inference_total = 2, errors_total = 0,
                                     avg_inference_time_ms = 10, start_time = 0\<rparr>\<rparr>)"
  by (simp add: predict_eval mb_eval)

lemma predict_example_present:
  "predict mb_env_example (predict_request_example ''demo'') 20 mb_state_example =
     (\<lparr>status = 200,
       body = [(''success'', JBool True), (''prediction'', JArr [JArr [JNum 0]]),
               (''inference_time_ms'', JNum 20), (''backend'', JStr ''onnx'')]\<rparr>,
      mb_state_example\<lparr>mb_stats := \<lparr>requests_total = 3, inference_total = 2, errors_total = 0,
                                     avg_inference_time_ms = 15, start_time = 0\<rparr>\<rparr>)"
  by (simp add: predict_eval mb_eval)

lemma batch_example_absent:
  "batch_predict mb_env_example (batch_request_example ''ghost'') 4 mb_state_example =
     (\<lparr>status = 404,
       body = [(''success'', JBool False), (''error'', JStr ''Model ghost not loaded'')]\<rparr>,
      mb_state_example\<lparr>mb_stats := \<lparr>requests_total = 3, inference_total = 1, errors_total = 0,
                                     avg_inference_time_ms = 10, start_time = 0\<rparr>\<rparr>)"
  by (simp add: predict_eval mb_eval)

lemma batch_example_present:
  "batch_predict mb_env_example (batch_request_example ''demo'') 4 mb_state_example =
     (\<lparr>status = 200,
       body = [(''success'', JBool True), (''predictions'', JArr [JArr [JNum 0]]),
               (''batch_size'', JNum 2), (''inference_time_ms'', JNum 4),
               (''per_sample_ms'', JNum 2), (''backend'', JStr ''onnx'')]\<rparr>,
      mb_state_example\<lparr>mb_stats := \<lparr>requests_total = 3, inference_total = 3, errors_total = 0,
                                     avg_inference_time_ms = 10, start_time = 0\<rparr>\<rparr>)"
  by (simp add: predict_eval mb_eval)



text \<open>
  What the two endpoints do to the statistics. \<open>predict\<close> raises \<open>inference_total\<close>
  by one on every call; a call that is answered 200 folds its elapsed time \<open>x\<close> into
  \<open>avg_inference_time_ms\<close>, to \<open>avg + (x - avg) / n\<close> with \<open>n\<close> the counter after
  the increment, and any other call returns before the mean is written.
  \<open>batch_predict\<close> adds the number of its inputs to \<open>inference_total\<close> in one step when
  it is answered 200 and nothing otherwise, and never writes the mean.
\<close>

lemma predict_statistics:
  "inference_total (mb_stats (snd (predict env data t s))) = inference_total (mb_stats s) + 1
   \<and> (status (fst (predict env data t s)) = 200 \<longrightarrow>
        avg_inference_time_ms (mb_stats (snd (predict env data t s))) =
          avg_inference_time_ms (mb_stats s)
          + (t - avg_inference_time_ms (mb_stats s)) / real_of_int (inference_total (mb_stats s) + 1))
   \<and> (status (fst (predict env data t s)) \<noteq> 200 \<longrightarrow>
        avg_inference_time_ms (mb_stats (snd (predict env data t s))) =
          avg_inference_time_ms (mb_stats s))
   \<and> (status (fst (batch_predict env bdata bt bs)) = 200 \<longrightarrow>
        (\<exists>len. py_len (br_inputs bdata) = Inr len
           \<and> inference_total (mb_stats (snd (batch_predict env bdata bt bs))) =
               inference_total (mb_stats bs) + len))
   \<and> (status (fst (batch_predict env bdata bt bs)) \<noteq> 200 \<longrightarrow>
        inference_total (mb_stats (snd (batch_predict env bdata bt bs))) =
          inference_total (mb_stats bs))
   \<and> avg_inference_time_ms (mb_stats (snd (batch_predict env bdata bt bs))) =
       avg_inference_time_ms (mb_stats bs)"
proof -
  note p = predict_outcome[of env data t s]
  note b = batch_predict_outcome[of env bdata bt bs]
  have A: "inference_total (mb_stats (snd (predict env data t s))) = inference_total (mb_stats s) + 1"
    using p by simp
  have B: "status (fst (predict env data t s)) = 200 \<longrightarrow>
        avg_inference_time_ms (mb_stats (snd (predict env data t s))) =
          avg_inference_time_ms (mb_stats s)
          + (t - avg_inference_time_ms (mb_stats s)) / real_of_int (inference_total (mb_stats s) + 1)"
  proof
    assume ok: "status (fst (predict env data t s)) = 200"
    with p have n: "inference_total (mb_stats s) + 1 \<noteq> 0"
      and a: "avg_inference_time_ms (mb_stats (snd (predict env data t s))) =
               (avg_inference_time_ms (mb_stats s) * real_of_int (inference_total (mb_stats s)) + t)
                 / real_of_int (inference_total (mb_stats s) + 1)"
      by simp_all
    from n have "real_of_int (inference_total (mb_stats s) + 1) \<noteq> 0" by simp
    then have "(avg_inference_time_ms (mb_stats s) * real_of_int (inference_total (mb_stats s)) + t)
                 / real_of_int (inference_total (mb_stats s) + 1)
        = avg_inference_time_ms (mb_stats s)
          + (t - avg_inference_time_ms (mb_stats s)) / real_of_int (inference_total (mb_stats s) + 1)"
      by (simp add: field_simps)
    with a show "avg_inference_time_ms (mb_stats (snd (predict env data t s))) =
          avg_inference_time_ms (mb_stats s)
          + (t - avg_inference_time_ms (mb_stats s)) / real_of_int (inference_total (mb_stats s) + 1)"
      by simp
  qed
  have C: "status (fst (predict env data t s)) \<noteq> 200 \<longrightarrow>
        avg_inference_time_ms (mb_stats (snd (predict env data t s))) =
          avg_inference_time_ms (mb_stats s)"
    using p by simp
  have D: "status (fst (batch_predict env bdata bt bs)) = 200 \<longrightarrow>
        (\<exists>len. py_len (br_inputs bdata) = Inr len
           \<and> inference_total (mb_stats (snd (batch_predict env bdata bt bs))) =
               inference_total (mb_stats bs) + len)"
    using b by simp
  have E: "status (fst (batch_predict env bdata bt bs)) \<noteq> 200 \<longrightarrow>
        inference_total (mb_stats (snd (batch_predict env bdata bt bs))) =
          inference_total (mb_stats bs)"
    using b by simp
  have F: "avg_inference_time_ms (mb_stats (snd (batch_predict env bdata bt bs))) =
       avg_inference_time_ms (mb_stats bs)"
    using b by simp
  from A B C D E F show ?thesis by blast
qed

text \<open>
  Claim C4 does not hold of the code. On a bridge that holds the model \<open>demo\<close> after one
  inference of 10 ms, a predict call for a model that is not loaded, taking 4 ms, is
  answered 404: it raises \<open>inference_total\<close> from 1 to 2 and leaves
  \<open>avg_inference_time_ms\<close> at 10, where an update with the elapsed time would give 7,
  so the counter and the mean no longer describe the same calls. A batch of two inputs
  for that model is answered 404 and leaves the counter at 1 and the mean at 10; a batch
  of two inputs for \<open>demo\<close> is answered 200, raises the counter to 3 and leaves the mean
  at 10.
\<close>

theorem failed_predict_counts_without_mean:
  "mb_stats mb_state_example =
     \<lparr>requests_total = 2, inference_total = 1, errors_total = 0,
      avg_inference_time_ms = 10, start_time = 0\<rparr>
   \<and> status (fst (predict mb_env_example (predict_request_example ''ghost'') 4 mb_state_example))
       = 404
   \<and> mb_stats (snd (predict mb_env_example (predict_request_example ''ghost'') 4
                       mb_state_example)) =
       \<lparr>requests_total = 3, inference_total = 2, errors_total = 0,
        avg_inference_time_ms = 10, start_time = 0\<rparr>
   \<and> (10 + (4 - 10) / real_of_int (1 + 1) :: real) = 7
   \<and> status (fst (batch_predict mb_env_example (batch_request_example ''ghost'') 4
                     mb_state_example)) = 404
   \<and> mb_stats (snd (batch_predict mb_env_example (batch_request_example ''ghost'') 4
                       mb_state_example)) =
       \<lparr>requests_total = 3, inference_total = 1, errors_total = 0,
        avg_inference_time_ms = 10, start_time = 0\<rparr>
   \<and> status (fst (batch_predict mb_env_example (batch_request_example ''demo'') 4
                     mb_state_example)) = 200
   \<and> mb_stats (snd (batch_predict mb_env_example (batch_request_example ''demo'') 4
                       mb_state_example)) =
       \<lparr>requests_total = 3, inference_total = 3, errors_total = 0,
        avg_inference_time_ms = 10, start_time = 0\<rparr>"
proof -
  have s: "mb_stats mb_state_example =
     \<lparr>requests_total = 2, inference_total = 1, errors_total = 0,
      avg_inference_time_ms = 10, start_time = 0\<rparr>"
    by (simp add: mb_state_example_def)
  show ?thesis
    unfolding predict_example_absent batch_example_absent batch_example_present
    by (simp add: s)
qed

text \<open>
  Read as changes of the statistics: the failed predict adds one to the counter and
  nothing to the mean, the failed batch adds nothing to the counter, and the batch that
  succeeds adds its two inputs to the counter and nothing to the mean.
\<close>

theorem failed_predict_counts_without_mean_witness:
  "inference_total
      (mb_stats (snd (predict mb_env_example (predict_request_example ''ghost'') 4
                        mb_state_example))) = inference_total (mb_stats mb_state_example) + 1
   \<and> avg_inference_time_ms
        (mb_stats (snd (predict mb_env_example (predict_request_example ''ghost'') 4
                          mb_state_example))) = avg_inference_time_ms (mb_stats mb_state_example)
   \<and> inference_total
        (mb_stats (snd (batch_predict mb_env_example (batch_request_example ''ghost'') 4
                          mb_state_example))) = inference_total (mb_stats mb_state_example)
   \<and> inference_total
        (mb_stats (snd (batch_predict mb_env_example (batch_request_example ''demo'') 4
                          mb_state_example))) = inference_total (mb_stats mb_state_example) + 2
   \<and> avg_inference_time_ms
        (mb_stats (snd (batch_predict mb_env_example (batch_request_example ''demo'') 4
                          mb_state_example))) = avg_inference_time_ms (mb_stats mb_state_example)"
  using failed_predict_counts_without_mean by simp

text \<open>
  The running mean is right as long as every call has succeeded: if \<open>inference_total\<close>
  is the number of the latencies recorded so far and the mean is their mean, a predict that
  is answered 200 keeps both so.
\<close>

lemma mean_preserved_by_success:
  assumes "inference_total (mb_stats s) = int (length xs)"
    and "avg_inference_time_ms (mb_stats s) * real (length xs) = sum_list xs"
    and "status (fst (predict env data t s)) = 200"
  shows "inference_total (mb_stats (snd (predict env data t s))) = int (length (xs @ [t]))
       \<and> avg_inference_time_ms (mb_stats (snd (predict env data t s))) =
           sum_list (xs @ [t]) / real (length (xs @ [t]))"
proof -
  from predict_outcome[of env data t s] assms(3)
  have n: "inference_total (mb_stats (snd (predict env data t s))) = inference_total (mb_stats s) + 1"
    and a: "avg_inference_time_ms (mb_stats (snd (predict env data t s))) =
               (avg_inference_time_ms (mb_stats s) * real_of_int (inference_total (mb_stats s)) + t)
                 / real_of_int (inference_total (mb_stats s) + 1)"
    by simp_all
  from n assms(1) have "inference_total (mb_stats (snd (predict env data t s))) =
      int (length (xs @ [t]))" by simp
  moreover from a assms(1,2) have "avg_inference_time_ms (mb_stats (snd (predict env data t s))) =
           sum_list (xs @ [t]) / real (length (xs @ [t]))"
    by (simp add: add.commute)
  ultimately show ?thesis by blast
qed

text \<open>
  Claim C3 does not hold of the code. \<open>predict\<close> divides by \<open>inference_total\<close>, which
  has counted the calls that failed as well (and the elements of every batch): on a fresh
  bridge, a predict that is answered 404, a load, and a predict that takes 10 ms leave
  \<open>avg_inference_time_ms = 5\<close>, while the only latency recorded is 10. (The streaming
  bridge keeps no statistics.)
\<close>

theorem running_mean_after_failed_call:
  "status (fst (predict mb_env_example (predict_request_example ''demo'') 4 (mb_init 0))) = 404
   \<and> status (fst (load_model mb_env_example load_request_example 12
                     (snd (predict mb_env_example (predict_request_example ''demo'') 4
                             (mb_init 0))))) = 200
   \<and> predict mb_env_example (predict_request_example ''demo'') 10
        (snd (load_model mb_env_example load_request_example 12
                (snd (predict mb_env_example (predict_request_example ''demo'') 4 (mb_init 0))))) =
       (\<lparr>status = 200,
         body = [(''success'', JBool True), (''prediction'', JArr [JArr [JNum 0]]),
                 (''inference_time_ms'', JNum 10), (''backend'', JStr ''onnx'')]\<rparr>,
        \<lparr>mb_models = [(''demo'', \<lparr>me_model = 3, me_backend = ''onnx'',
                                   me_path = ''models/demo/model.onnx''\<rparr>)],
         mb_stats = \<lparr>requests_total = 3, inference_total = 2, errors_total = 0,
                     avg_inference_time_ms = 5, start_time = 0\<rparr>,
         inference_session = Some 7\<rparr>)"
proof -
  let ?s1 = "\<lparr>mb_models = [],
      mb_stats = \<lparr>requests_total = 1, inference_total = 1, errors_total = 0,
                  avg_inference_time_ms = 0, start_time = 0\<rparr>,
      inference_session = None\<rparr>"
  let ?s2 = "\<lparr>mb_models = [(''demo'', \<lparr>me_model = 3, me_backend = ''onnx'',
                                   me_path = ''models/demo/model.onnx''\<rparr>)],
         mb_stats = \<lparr>requests_total = 2, inference_total = 1, errors_total = 0,
                     avg_inference_time_ms = 0, start_time = 0\<rparr>,
         inference_session = Some 7\<rparr>"
  have a: "predict mb_env_example (predict_request_example ''demo'') 4 (mb_init 0) =
      (\<lparr>status = 404,
        body = [(''success'', JBool False), (''error'', JStr ''Model demo not loaded'')]\<rparr>, ?s1)"
    by (simp add: predict_eval mb_eval)
  have b: "load_model mb_env_example load_request_example 12 ?s1 =
      (loaded_response mb_env_example ''demo'' 12
         [(''model_id'', JStr ''demo''), (''backend'', JStr ''onnx''),
          (''input_names'', JArr [JStr ''input'']), (''output_names'', JArr [JStr ''output'']),
          (''input_shapes'', JArr [JArr [JNull, JNum 5]]),
          (''providers'', JArr [JStr ''CPUExecutionProvider''])], ?s2)"
    by (simp add: load_model_def choose_backend_def load_model_max_def load_model_onnx_def
          get_inference_session_def count_request_def mb_env_example_def
          load_request_example_def Let_def)
  have c: "predict mb_env_example (predict_request_example ''demo'') 10 ?s2 =
       (\<lparr>status = 200,
         body = [(''success'', JBool True), (''prediction'', JArr [JArr [JNum 0]]),
                 (''inference_time_ms'', JNum 10), (''backend'', JStr ''onnx'')]\<rparr>,
        \<lparr>mb_models = [(''demo'', \<lparr>me_model = 3, me_backend = ''onnx'',
                                   me_path = ''models/demo/model.onnx''\<rparr>)],
         mb_stats = \<lparr>requests_total = 3, inference_total = 2, errors_total = 0,
                     avg_inference_time_ms = 5, start_time = 0\<rparr>,
         inference_session = Some 7\<rparr>)"
    by (simp add: predict_eval mb_eval)
  show ?thesis
    by (simp add: a b c)
qed

section \<open>Quantization in the Edge TPU helper\<close>

lemma coral_prepare_ignores_quantization:
  "coral_prepare env (d\<lparr>d_quantization := q\<rparr>) v = coral_prepare env d v"
  by (simp add: coral_prepare_def Let_def split: sum.splits prod.splits)


lemma dequantize_int8:
  "d_dtype od = Int8 \<Longrightarrow> d_quantization od = (scale, zero_point) \<Longrightarrow>
   t_vals (dequantize od out) = map (map_option (\<lambda>q. (q - of_int zero_point) * scale)) (t_vals out)"
  by (simp add: dequantize_def)

lemma coral_run_example:
  "coral_run coral_env_example ''model_edgetpu.tflite'' (JArr [JNum 1, JNum 3]) =
     Inr \<lparr>dtype = Float32, t_shape = [1, 1], t_vals = [Some 2]\<rparr>"
  by (simp add: coral_run_def coral_prepare_def dequantize_def coral_env_example_def Let_def)

text \<open>
  Claim C5 does not hold of the code in the encode direction. The array is built with the
  element type of the model's input, so inside the \<open>int8\<close> branch its type is never
  \<open>float32\<close> and the quantization is never applied: what \<open>coral_prepare\<close> returns does
  not depend on \<open>(scale, zero_point)\<close> at all. With scale 0.5 and zero point 0 the floats
  \<open>[1.0, 3.0]\<close> reach the interpreter as \<open>[1, 3]\<close>, where the quantization would give
  \<open>[2, 6]\<close>.
\<close>

theorem int8_input_is_not_quantized:
  "coral_prepare env (d\<lparr>d_quantization := q\<rparr>) v = coral_prepare env d v
   \<and> coral_prepare coral_env_example
        \<lparr>d_dtype = Int8, d_shape = [1, 2], d_quantization = (1 / 2, 0)\<rparr>
        (JArr [JNum 1, JNum 3]) =
       Inr \<lparr>dtype = Int8, t_shape = [1, 2], t_vals = [Some 1, Some 3]\<rparr>
   \<and> quantize coral_env_example (1 / 2, 0)
        \<lparr>dtype = Float32, t_shape = [1, 2], t_vals = [Some 1, Some 3]\<rparr> =
       \<lparr>dtype = Int8, t_shape = [1, 2], t_vals = [Some 2, Some 6]\<rparr>"
proof -
  have a: "coral_prepare coral_env_example
        \<lparr>d_dtype = Int8, d_shape = [1, 2], d_quantization = (1 / 2, 0)\<rparr>
        (JArr [JNum 1, JNum 3]) =
       Inr \<lparr>dtype = Int8, t_shape = [1, 2], t_vals = [Some 1, Some 3]\<rparr>"
    by (simp add: coral_prepare_def coral_env_example_def Let_def)
  have b: "quantize coral_env_example (1 / 2, 0)
        \<lparr>dtype = Float32, t_shape = [1, 2], t_vals = [Some 1, Some 3]\<rparr> =
       \<lparr>dtype = Int8, t_shape = [1, 2], t_vals = [Some 2, Some 6]\<rparr>"
    by (simp add: quantize_def coral_env_example_def np_round_def Let_def)
  from a b coral_prepare_ignores_quantization show ?thesis by blast
qed

end
